theory Spec2Isabelle
  imports Complex_Main
begin

section \<open>The graph that the translators build\<close>

text \<open>
  The files under verification are operator translators of the ONNX frontend: each takes
  one node of the source graph and returns the outputs of the target graph it builds.
  The target graph is a term: a node is its operation together with the outputs it
  consumes. Parameter nodes are the exception: a Parameter is a shared, mutable object,
  so it carries an identity, and two Parameter leaves with the same identity stand for
  the same object.

  The runtime that the translators call is not part of the translated files. What they
  need of it is kept as small as possible:
  \<^item> a constructor of a runtime operation builds the node and nothing else; the checks
    that the runtime itself runs when a node is built are outside this development;
  \<^item> shape and type inference of a built operation, the axis normalisation of
    \<^verbatim>\<open>validation_util.hpp\<close>, the element type table of \<^verbatim>\<open>utils/common.hpp\<close> and the
    helpers \<^verbatim>\<open>dft::make_dft\<close> and \<^verbatim>\<open>make_random_normal\<close> are parameters of the translators
    that use them;
  \<^item> \<^verbatim>\<open>int64_t\<close> values are integers and \<^verbatim>\<open>float\<close> values are reals: the translators
    only pass floats through, and the integer arithmetic of \<^verbatim>\<open>stft\<close> is on frame
    counts and offsets, kept here without a bound.
\<close>

datatype element_type =
  boolean | bf16 | f16 | f32 | f64 | i4 | i8 | i16 | i32 | i64 | u1 | u4 | u8 | u16 | u32 | u64
  | dynamic_type

datatype dimension = Static nat | Dynamic

datatype partial_shape = DynamicRank | Ranked "dimension list"

datatype number = I64 int | F32 real

datatype parameter =
  Param (param_id: nat) (param_element_type: element_type) (param_partial_shape: partial_shape)

datatype op_type =
    Sqrt_v0
  | Multiply_v1
  | ScatterNDUpdate_v3
  | ShapeOf_v0
  | ShapeOf_v3
  | Slice_v8
  | Reshape_v1 bool
  | Unsqueeze_v0
  | Squeeze_v0
  | Broadcast_v3
  | Concat_v0 int
  | Other string

datatype 'b input_description =
    SliceInput parameter int int int int int
  | MergedInput parameter 'b

datatype 'b output_description =
    BodyOutput 'b int
  | ConcatOutput 'b int int int int int

text \<open>An output of the target graph. \<open>Op t xs\<close> is the output of an operation \<open>t\<close> that
  consumes \<open>xs\<close>. \<open>TensorIterator xs results params ins outs k\<close> is output \<open>k\<close> of a
  TensorIterator that consumes \<open>xs\<close>, runs the body with the results \<open>results\<close> and the
  parameters \<open>params\<close>, feeds input \<open>xs ! j\<close> to the body as \<open>ins ! j\<close> says and produces
  output \<open>k\<close> as \<open>outs ! k\<close> says. The values of a body that the descriptions name are
  outputs of the body.\<close>

datatype out =
    NullNode
  | Parameter parameter
  | Constant element_type "nat list" "number list"
  | Op op_type "out list"
  | TensorIterator "out list" "out list" "parameter list" "out input_description list"
      "out output_description list" nat

datatype attribute =
  AttrInt int | AttrFloat real | AttrString string | AttrInts "int list"

record subgraph =
  get_ov_outputs :: "out list"
  get_ng_parameters :: "parameter list"

record node =
  get_ng_inputs :: "out list"
  attributes :: "string \<rightharpoonup> attribute"
  get_subgraphs :: "string \<rightharpoonup> subgraph"
  get_description :: string

datatype error =
    validation_error string
  | assertion_error string
  | out_of_range
  | unknown_attribute string
  | invalid_attribute string
  | length_error
  | undefined_behaviour
  | runtime_error string

section \<open>Results, vectors and attributes\<close>

fun result_bind :: "error + 'a \<Rightarrow> ('a \<Rightarrow> error + 'b) \<Rightarrow> error + 'b" where
  "result_bind (Inl e) f = Inl e"
| "result_bind (Inr x) f = f x"

text \<open>\<^verbatim>\<open>std::vector::at\<close> throws \<^verbatim>\<open>std::out_of_range\<close>; \<^verbatim>\<open>operator[]\<close> out of range is
  undefined behaviour.\<close>

definition vector_at :: "'a list \<Rightarrow> nat \<Rightarrow> error + 'a" where
  "vector_at xs i = (if i < length xs then Inr (xs ! i) else Inl out_of_range)"

definition vector_index :: "'a list \<Rightarrow> nat \<Rightarrow> error + 'a" where
  "vector_index xs i = (if i < length xs then Inr (xs ! i) else Inl undefined_behaviour)"

text \<open>Modelled from the spec: the attribute layer of the frontend (\<^verbatim>\<open>core/node.hpp\<close>) is
  not among the translated files. \<^verbatim>\<open>has_attribute\<close> says whether the node carries the
  attribute; \<^verbatim>\<open>get_attribute_value<T>(name, default)\<close> gives the default when the node
  does not carry it, \<^verbatim>\<open>get_attribute_value<T>(name)\<close> fails then; a carried attribute
  of another type than \<^verbatim>\<open>T\<close> is refused.\<close>

definition has_attribute :: "node \<Rightarrow> string \<Rightarrow> bool" where
  "has_attribute n name = (attributes n name \<noteq> None)"

definition get_attribute_int :: "node \<Rightarrow> string \<Rightarrow> error + int" where
  "get_attribute_int n name =
     (case attributes n name of
        None \<Rightarrow> Inl (unknown_attribute name)
      | Some (AttrInt v) \<Rightarrow> Inr v
      | Some _ \<Rightarrow> Inl (invalid_attribute name))"

definition get_attribute_int_or :: "node \<Rightarrow> string \<Rightarrow> int \<Rightarrow> error + int" where
  "get_attribute_int_or n name d =
     (case attributes n name of
        None \<Rightarrow> Inr d
      | Some (AttrInt v) \<Rightarrow> Inr v
      | Some _ \<Rightarrow> Inl (invalid_attribute name))"

definition get_attribute_float_or :: "node \<Rightarrow> string \<Rightarrow> real \<Rightarrow> error + real" where
  "get_attribute_float_or n name d =
     (case attributes n name of
        None \<Rightarrow> Inr d
      | Some (AttrFloat v) \<Rightarrow> Inr v
      | Some _ \<Rightarrow> Inl (invalid_attribute name))"

definition get_attribute_string_or :: "node \<Rightarrow> string \<Rightarrow> string \<Rightarrow> error + string" where
  "get_attribute_string_or n name d =
     (case attributes n name of
        None \<Rightarrow> Inr d
      | Some (AttrString v) \<Rightarrow> Inr v
      | Some _ \<Rightarrow> Inl (invalid_attribute name))"

definition get_attribute_ints_or :: "node \<Rightarrow> string \<Rightarrow> int list \<Rightarrow> error + int list" where
  "get_attribute_ints_or n name d =
     (case attributes n name of
        None \<Rightarrow> Inr d
      | Some (AttrInts v) \<Rightarrow> Inr v
      | Some _ \<Rightarrow> Inl (invalid_attribute name))"

text \<open>Modelled from the spec: the accessors of a runtime output (\<^verbatim>\<open>is_null\<close>,
  \<^verbatim>\<open>is_constant\<close>, \<^verbatim>\<open>get_partial_shape\<close>, \<^verbatim>\<open>get_element_type\<close>) belong to the runtime.
  A Parameter and a Constant carry their own type and shape; for every other node the
  answer is the inference \<open>shp\<close> (or \<open>elt\<close>) of the runtime, a parameter here.\<close>

fun is_null :: "out \<Rightarrow> bool" where
  "is_null NullNode = True"
| "is_null _ = False"

fun is_constant :: "out \<Rightarrow> bool" where
  "is_constant (Constant t sh d) = True"
| "is_constant _ = False"

fun get_partial_shape :: "(out \<Rightarrow> partial_shape) \<Rightarrow> out \<Rightarrow> partial_shape" where
  "get_partial_shape shp (Parameter p) = param_partial_shape p"
| "get_partial_shape shp (Constant t sh d) = Ranked (map Static sh)"
| "get_partial_shape shp e = shp e"

fun get_element_type :: "(out \<Rightarrow> element_type) \<Rightarrow> out \<Rightarrow> element_type" where
  "get_element_type elt (Parameter p) = param_element_type p"
| "get_element_type elt (Constant t sh d) = t"
| "get_element_type elt e = elt e"

section \<open>The elementwise translators and ScatterND\<close>

text \<open>\<^verbatim>\<open>op/sqrt.hpp\<close>, \<^verbatim>\<open>set_1::sqrt\<close>.\<close>

definition sqrt_set_1 :: "node \<Rightarrow> error + out list" where
  "sqrt_set_1 n = result_bind (vector_at (get_ng_inputs n) 0) (\<lambda>x. Inr [Op Sqrt_v0 [x]])"

text \<open>\<^verbatim>\<open>op/mul.hpp\<close>, \<^verbatim>\<open>set_7::mul\<close>.\<close>

definition mul_set_7 :: "node \<Rightarrow> error + out list" where
  "mul_set_7 n =
     result_bind (vector_at (get_ng_inputs n) 0) (\<lambda>a.
     result_bind (vector_at (get_ng_inputs n) 1) (\<lambda>b.
       Inr [Op Multiply_v1 [a, b]]))"

text \<open>\<^verbatim>\<open>op/scatter_nd.cpp\<close>, \<^verbatim>\<open>set_1::scatter_nd\<close>.\<close>

definition scatter_nd :: "node \<Rightarrow> error + out list" where
  "scatter_nd n =
     result_bind (vector_at (get_ng_inputs n) 0) (\<lambda>data.
     result_bind (vector_at (get_ng_inputs n) 1) (\<lambda>indices.
     result_bind (vector_at (get_ng_inputs n) 2) (\<lambda>updates.
     result_bind
       (if has_attribute n ''reduction'' then
          result_bind (get_attribute_string_or n ''reduction'' ''none'') (\<lambda>reduction.
            if reduction = ''none'' then Inr ()
            else Inl (validation_error
              ''Unsupported value of attribute: `reduction`. Only `none` is supported, got:''))
        else Inr ())
       (\<lambda>_. Inr [Op ScatterNDUpdate_v3 [data, indices, updates]]))))"

section \<open>RandomNormalLike\<close>

text \<open>\<^verbatim>\<open>op/random_normal_like.cpp\<close>, \<^verbatim>\<open>set_1::random_normal_like\<close>. The helper
  \<^verbatim>\<open>make_random_normal\<close> returns a pair whose first component is the output vector.\<close>

definition random_normal_like ::
  "(out \<Rightarrow> element_type) \<Rightarrow> (int \<Rightarrow> error + element_type) \<Rightarrow>
   (out \<Rightarrow> element_type \<Rightarrow> out \<Rightarrow> out \<Rightarrow> real \<Rightarrow> out list \<times> out list) \<Rightarrow>
   node \<Rightarrow> error + out list" where
  "random_normal_like elt get_ov_element_type make_random_normal n =
     result_bind (vector_at (get_ng_inputs n) 0) (\<lambda>input.
     result_bind
       (if has_attribute n ''dtype'' then
          result_bind (get_attribute_int n ''dtype'') get_ov_element_type
        else Inr (get_element_type elt input))
       (\<lambda>target_type.
     let shape = Op ShapeOf_v0 [input] in
     result_bind (get_attribute_float_or n ''seed'' 0) (\<lambda>seed.
     result_bind (get_attribute_float_or n ''mean'' 0) (\<lambda>mean.
     result_bind (get_attribute_float_or n ''scale'' 1) (\<lambda>scale.
     let scale_node = Constant target_type [1] [F32 scale];
         mean_node = Constant target_type [1] [F32 mean];
         res = make_random_normal shape target_type mean_node scale_node seed
     in Inr (fst res))))))"

section \<open>Loops, integer division and validation\<close>

text \<open>A counted loop \<^verbatim>\<open>for (i = first; i < bound; ++i)\<close> whose body may fail: the body
  takes the index and the state before the iteration and returns the state after it.\<close>

function for_loop :: "int \<Rightarrow> int \<Rightarrow> (int \<Rightarrow> 's \<Rightarrow> error + 's) \<Rightarrow> 's \<Rightarrow> error + 's" where
  "for_loop i bound body s =
     (if i < bound then result_bind (body i s) (\<lambda>s'. for_loop (i + 1) bound body s')
      else Inr s)"
  by pat_completeness auto
termination
  by (relation "measure (\<lambda>(i, bound, body, s). nat (bound - i))") auto

declare for_loop.simps [simp del]

text \<open>Arithmetic of \<^verbatim>\<open>int64_t\<close>. A sum, difference or product is computed in 64 bits: a
  result outside the range \<open>- 2 ^ 63 \<dots> 2 ^ 63 - 1\<close> comes back reduced modulo \<open>2 ^ 64\<close>
  into the range (the wrap-around of two's-complement hardware; the language leaves the
  overflow undefined). \<open>int64 x\<close> is \<open>x\<close> so reduced.\<close>

definition int64 :: "int \<Rightarrow> int" where
  "int64 x = (x + 2 ^ 63) mod 2 ^ 64 - 2 ^ 63"

text \<open>The C++ quotient of two \<^verbatim>\<open>int64_t\<close> truncates towards zero. A zero divisor is
  undefined behaviour, and so is the quotient of the least value by \<open>- 1\<close>, which is not
  an \<^verbatim>\<open>int64_t\<close>: the division instruction traps on both.\<close>

definition int64_quotient :: "int \<Rightarrow> int \<Rightarrow> int" where
  "int64_quotient a b = sgn a * sgn b * (\<bar>a\<bar> div \<bar>b\<bar>)"

definition int64_div :: "int \<Rightarrow> int \<Rightarrow> error + int" where
  "int64_div a b =
     (if b = 0 \<or> (a = - (2 ^ 63) \<and> b = - 1) then Inl undefined_behaviour
      else Inr (int64_quotient a b))"

text \<open>\<^verbatim>\<open>CHECK_VALID_NODE(node, cond, msg)\<close> and \<^verbatim>\<open>OPENVINO_ASSERT(cond, part, \<dots>)\<close>, whose
  message is the concatenation of the parts.\<close>

definition check_valid_node :: "bool \<Rightarrow> string \<Rightarrow> error + unit" where
  "check_valid_node cond msg = (if cond then Inr () else Inl (validation_error msg))"

definition openvino_assert :: "bool \<Rightarrow> string \<Rightarrow> error + unit" where
  "openvino_assert cond msg = (if cond then Inr () else Inl (assertion_error msg))"

section \<open>STFT\<close>

text \<open>Modelled from the spec: \<^verbatim>\<open>ov::shape_size\<close> and \<^verbatim>\<open>Constant::cast_vector\<close> belong to
  the runtime. The size of a shape is the product of its dimensions; \<^verbatim>\<open>cast_vector<int64_t>\<close>
  gives the elements of the constant as integers, a float truncated towards zero.\<close>

definition shape_size :: "nat list \<Rightarrow> nat" where
  "shape_size sh = prod_list sh"

fun to_int64 :: "number \<Rightarrow> int" where
  "to_int64 (I64 i) = i"
| "to_int64 (F32 r) = (if r < 0 then - \<lfloor>- r\<rfloor> else \<lfloor>r\<rfloor>)"

text \<open>The condition \<^verbatim>\<open>is_constant(x) && shape_size(x.get_shape()) <= 1\<close> of \<^verbatim>\<open>stft\<close>: the
  shape is only read of a constant.\<close>

fun is_constant_of_size_le_1 :: "out \<Rightarrow> bool" where
  "is_constant_of_size_le_1 (Constant t sh d) = (shape_size sh \<le> 1)"
| "is_constant_of_size_le_1 _ = False"

text \<open>\<^verbatim>\<open>as_type_ptr<Constant>(x)->cast_vector<int64_t>()[0]\<close>: the pointer is null when \<open>x\<close>
  is no constant, and the vector of a constant without elements has no first element.\<close>

fun first_int64 :: "out \<Rightarrow> error + int" where
  "first_int64 (Constant t sh d) = vector_index (map to_int64 d) 0"
| "first_int64 _ = Inl undefined_behaviour"

text \<open>The lambda \<^verbatim>\<open>is_complex\<close> of \<^verbatim>\<open>stft\<close>: the rank is static and the innermost dimension
  is static and 2. It reads the element before \<^verbatim>\<open>cend()\<close>, which a shape of rank 0 does not
  have.\<close>

fun is_complex :: "(out \<Rightarrow> partial_shape) \<Rightarrow> out \<Rightarrow> error + bool" where
  "is_complex shp data =
     (case get_partial_shape shp data of
        DynamicRank \<Rightarrow> Inr False
      | Ranked [] \<Rightarrow> Inl undefined_behaviour
      | Ranked (d # ds) \<Rightarrow> Inr (last (d # ds) = Static 2))"

declare is_complex.simps [simp del]

text \<open>The body of the inner loop of \<^verbatim>\<open>stft\<close> (lines 89 to 118): the frame \<open>sig_idx\<close> of
  batch element \<open>batch\<close>, transformed, is pushed to \<^verbatim>\<open>signals_in_batch\<close>. The bounds of the
  slice are computed in \<^verbatim>\<open>int64_t\<close>.\<close>

definition stft_signal ::
  "(out \<Rightarrow> partial_shape) \<Rightarrow> (out \<Rightarrow> out \<Rightarrow> int \<Rightarrow> bool \<Rightarrow> bool \<Rightarrow> out) \<Rightarrow> out list \<Rightarrow> out \<Rightarrow>
   bool \<Rightarrow> bool \<Rightarrow> int \<Rightarrow> int \<Rightarrow> int \<Rightarrow> int \<Rightarrow> int \<Rightarrow> out list \<Rightarrow> error + out list" where
  "stft_signal shp make_dft ng_inputs signal window_node_provided dft_length_provided onesided
     frame_step frame_length batch sig_idx signals_in_batch =
     (let axis = 1;
          zero_const = Constant i64 [] [I64 0];
          step = Constant i64 [2] [I64 1, I64 1];
          start = Constant i64 [2] [I64 batch, I64 (int64 (sig_idx * frame_step))];
          stop = Constant i64 [2]
            [I64 (int64 (batch + 1)), I64 (int64 (int64 (sig_idx * frame_step) + frame_length))];
          slice_axes = Constant i64 [2] [I64 0, I64 axis];
          slice = Op Slice_v8 [signal, start, stop, step, slice_axes]
      in
      result_bind (is_complex shp slice) (\<lambda>slice_is_complex.
      let flatten_slice = Op (Reshape_v1 False)
            [slice,
             if slice_is_complex then Constant i64 [2] [I64 (- 1), I64 2]
             else if onesided \<noteq> 0 then Constant i64 [1] [I64 (- 1)]
             else Constant i64 [2] [I64 (- 1), I64 1]]
      in
      result_bind
        (if window_node_provided then
           result_bind (is_complex shp flatten_slice) (\<lambda>flatten_slice_is_complex.
             Inr (Op Multiply_v1
               [flatten_slice,
                if flatten_slice_is_complex then
                  Op Broadcast_v3
                    [Op Unsqueeze_v0 [ng_inputs ! 2, Constant i64 [1] [I64 1]],
                     Op ShapeOf_v3 [flatten_slice]]
                else ng_inputs ! 2]))
         else Inr flatten_slice)
        (\<lambda>dft_input.
      let dft = make_dft dft_input (if dft_length_provided then ng_inputs ! 3 else NullNode)
            0 False (onesided = 1)
      in Inr (signals_in_batch @ [Op Unsqueeze_v0 [dft, zero_const]]))))"

text \<open>The body of the outer loop (lines 87 to 121).\<close>

definition stft_batch ::
  "(out \<Rightarrow> partial_shape) \<Rightarrow> (out \<Rightarrow> out \<Rightarrow> int \<Rightarrow> bool \<Rightarrow> bool \<Rightarrow> out) \<Rightarrow> out list \<Rightarrow> out \<Rightarrow>
   bool \<Rightarrow> bool \<Rightarrow> int \<Rightarrow> int \<Rightarrow> int \<Rightarrow> int \<Rightarrow> int \<Rightarrow> out list \<Rightarrow> error + out list" where
  "stft_batch shp make_dft ng_inputs signal window_node_provided dft_length_provided onesided
     frame_step frame_length nstfts batch all_signals =
     result_bind
       (for_loop 0 nstfts
          (stft_signal shp make_dft ng_inputs signal window_node_provided dft_length_provided
             onesided frame_step frame_length batch) [])
       (\<lambda>signals_in_batch.
          Inr (all_signals @
            [Op Unsqueeze_v0 [Op (Concat_v0 0) signals_in_batch, Constant i64 [] [I64 0]]]))"

text \<open>\<^verbatim>\<open>op/stft.cpp\<close>, \<^verbatim>\<open>set_17::stft\<close>. The lengths of a static shape are \<^verbatim>\<open>int64_t\<close> values
  that are not negative, so the quotient of line 49 is in the range whenever it is
  defined; the difference and the sum of line 81 are computed in \<^verbatim>\<open>int64_t\<close>.\<close>

definition stft ::
  "(out \<Rightarrow> partial_shape) \<Rightarrow> (out \<Rightarrow> out \<Rightarrow> int \<Rightarrow> bool \<Rightarrow> bool \<Rightarrow> out) \<Rightarrow> node \<Rightarrow> error + out list" where
  "stft shp make_dft n =
     (let ng_inputs = get_ng_inputs n in
      result_bind (vector_at ng_inputs 0) (\<lambda>signal.
      let dft_length_provided = (length ng_inputs > 3 \<and> \<not> is_null (ng_inputs ! 3)) in
      result_bind (get_attribute_int_or n ''onesided'' 1) (\<lambda>onesided.
      result_bind (vector_at ng_inputs 1) (\<lambda>frame_step_node.
      result_bind (check_valid_node (is_constant_of_size_le_1 frame_step_node)
        ''frame_step input must be a scalar or Shape{1} constant.'') (\<lambda>_.
      result_bind (first_int64 frame_step_node) (\<lambda>frame_step.
      case get_partial_shape shp signal of
        Ranked [Static batch_size, Static signal_length, Static innermost] \<Rightarrow>
          result_bind (int64_div (int signal_length) frame_step) (\<lambda>default_frame_length.
          result_bind
            (if dft_length_provided then
               result_bind (check_valid_node (is_constant_of_size_le_1 (ng_inputs ! 3))
                 ''frame_length input must be a scalar or Shape{1} constant.'') (\<lambda>_.
               first_int64 (ng_inputs ! 3))
             else Inr default_frame_length)
            (\<lambda>frame_length.
          let window_node_provided = (length ng_inputs > 2 \<and> \<not> is_null (ng_inputs ! 2)) in
          result_bind
            (if window_node_provided then
               (case get_partial_shape shp (ng_inputs ! 2) of
                  DynamicRank \<Rightarrow> Inr ()
                | Ranked window_dims \<Rightarrow>
                    result_bind (check_valid_node (length window_dims = 1)
                      ''The rank of window input must be 1D.'') (\<lambda>_.
                    case window_dims ! 0 of
                      Static window_length \<Rightarrow>
                        check_valid_node (int window_length = frame_length)
                          ''The length of window input must be equal to frame_length.''
                    | Dynamic \<Rightarrow> Inr ()))
             else Inr ())
            (\<lambda>_.
          result_bind
            (if onesided = 1 then
               result_bind (is_complex shp signal) (\<lambda>signal_is_complex.
                 check_valid_node (\<not> signal_is_complex)
                   ''If attribute onesided==1, signal input can NOT be complex.'')
             else Inr ())
            (\<lambda>_.
          result_bind (int64_div (int64 (int signal_length - frame_length)) frame_step)
            (\<lambda>quotient.
          let nstfts = int64 (quotient + 1) in
          result_bind
            (for_loop 0 (int batch_size)
               (stft_batch shp make_dft ng_inputs signal window_node_provided
                  dft_length_provided onesided frame_step frame_length nstfts) [])
            (\<lambda>all_signals. Inr [Op (Concat_v0 0) all_signals]))))))
      | _ \<Rightarrow> Inl (validation_error
          ''Shape of signal input must be static with the rank equal to 3.'')))))))"

section \<open>Scan\<close>

text \<open>\<^verbatim>\<open>size_t\<close> arithmetic wraps around at \<open>2 ^ 64\<close>; the conversion of an \<^verbatim>\<open>int64_t\<close> to
  \<^verbatim>\<open>size_t\<close> does too. \<^verbatim>\<open>std::vector<int64_t>(count, value)\<close> throws \<^verbatim>\<open>std::length_error\<close>
  for a count above \<^verbatim>\<open>max_size()\<close>, which is below \<open>2 ^ 60\<close> for 8-byte elements.\<close>

definition size_t :: "int \<Rightarrow> nat" where
  "size_t x = nat (x mod 2 ^ 64)"

definition vector_of :: "nat \<Rightarrow> 'a \<Rightarrow> error + 'a list" where
  "vector_of count x = (if count < 2 ^ 60 then Inr (replicate count x) else Inl length_error)"

text \<open>\<^verbatim>\<open>std::map::at\<close> throws \<^verbatim>\<open>std::out_of_range\<close> for a missing key.\<close>

definition map_at :: "('k \<rightharpoonup> 'v) \<Rightarrow> 'k \<Rightarrow> error + 'v" where
  "map_at m k = (case m k of None \<Rightarrow> Inl out_of_range | Some v \<Rightarrow> Inr v)"

text \<open>Modelled from the spec: the Parameter, PartialShape and TensorIterator classes belong
  to the runtime.
  \<^item> A Parameter is shared by the parameter vector of the body and by every node of the
    body that consumes it: \<open>set_parameter\<close> writes a new type and shape to the Parameter with
    that identity, wherever it stands.
  \<^item> \<open>replace_source_output\<close> is the loop over \<^verbatim>\<open>get_target_inputs()\<close> of a Parameter that
    calls \<^verbatim>\<open>replace_source_output\<close> on each: every input of a node that consumed the
    Parameter consumes the new output instead. An entry of the output vector that is the
    Parameter itself is no input of a node and stays.
  \<^item> \<open>rank\<close> is the rank of a partial shape when static; \<open>set_dimension\<close> is the
    assignment \<^verbatim>\<open>shape[axis] = d\<close>, meant for an axis within the rank.
  \<^item> A TensorIterator under construction is the record \<open>tensor_iterator\<close>.
    \<^verbatim>\<open>set_sliced_input\<close> and \<^verbatim>\<open>set_merged_input\<close> add one input and its description;
    \<^verbatim>\<open>get_iter_value\<close> and \<^verbatim>\<open>get_concatenated_slices\<close> add one output and its description
    and return the index of the new output. The arguments are kept as they are passed.\<close>

fun update_parameter :: "parameter \<Rightarrow> out \<Rightarrow> out" where
  "update_parameter p NullNode = NullNode"
| "update_parameter p (Parameter q) = Parameter (if param_id q = param_id p then p else q)"
| "update_parameter p (Constant t sh d) = Constant t sh d"
| "update_parameter p (Op t xs) = Op t (map (update_parameter p) xs)"
| "update_parameter p (TensorIterator xs results params ins outs k) =
     TensorIterator (map (update_parameter p) xs) results params ins outs k"

definition set_parameter ::
  "parameter \<Rightarrow> parameter list \<times> out list \<Rightarrow> parameter list \<times> out list" where
  "set_parameter p body =
     (map (\<lambda>q. if param_id q = param_id p then p else q) (fst body),
      map (update_parameter p) (snd body))"

fun is_parameter :: "nat \<Rightarrow> out \<Rightarrow> bool" where
  "is_parameter i (Parameter q) = (param_id q = i)"
| "is_parameter i _ = False"

fun replace_source_output :: "nat \<Rightarrow> out \<Rightarrow> out \<Rightarrow> out" where
  "replace_source_output i new NullNode = NullNode"
| "replace_source_output i new (Parameter q) = Parameter q"
| "replace_source_output i new (Constant t sh d) = Constant t sh d"
| "replace_source_output i new (Op t xs) =
     Op t (map (\<lambda>x. if is_parameter i x then new else replace_source_output i new x) xs)"
| "replace_source_output i new (TensorIterator xs results params ins outs k) =
     TensorIterator
       (map (\<lambda>x. if is_parameter i x then new else replace_source_output i new x) xs)
       results params ins outs k"

text \<open>Modelled from the spec: an input of a node (\<^verbatim>\<open>ov::Input<Node>\<close>) belongs to the
  runtime. An input of a node of a graph is addressed from an output of the graph by the
  path of input indices that leads to it; \<open>get_source_output e path\<close> is the output that
  the input at the end of the path consumes. The empty path is the output itself, which
  is no input of a node.\<close>

fun get_source_output :: "out \<Rightarrow> nat list \<Rightarrow> out option" where
  "get_source_output e [] = Some e"
| "get_source_output (Op t xs) (k # path) =
     (if k < length xs then get_source_output (xs ! k) path else None)"
| "get_source_output (TensorIterator xs results params ins outs i) (k # path) =
     (if k < length xs then get_source_output (xs ! k) path else None)"
| "get_source_output e (k # path) = None"

fun rank :: "partial_shape \<Rightarrow> nat option" where
  "rank DynamicRank = None"
| "rank (Ranked ds) = Some (length ds)"

definition set_dimension :: "dimension list \<Rightarrow> int \<Rightarrow> dimension \<Rightarrow> error + partial_shape" where
  "set_dimension ds axis d =
     (if 0 \<le> axis \<and> nat axis < length ds then Inr (Ranked (ds[nat axis := d]))
      else Inl undefined_behaviour)"

record tensor_iterator =
  ti_inputs :: "out list"
  ti_results :: "out list"
  ti_parameters :: "parameter list"
  ti_input_descriptions :: "out input_description list"
  ti_output_descriptions :: "out output_description list"

definition new_tensor_iterator :: tensor_iterator where
  "new_tensor_iterator =
     \<lparr>ti_inputs = [], ti_results = [], ti_parameters = [], ti_input_descriptions = [],
      ti_output_descriptions = []\<rparr>"

definition set_function :: "out list \<Rightarrow> parameter list \<Rightarrow> tensor_iterator \<Rightarrow> tensor_iterator" where
  "set_function results params ti = ti\<lparr>ti_results := results, ti_parameters := params\<rparr>"

definition set_sliced_input ::
  "parameter \<Rightarrow> out \<Rightarrow> int \<Rightarrow> int \<Rightarrow> int \<Rightarrow> int \<Rightarrow> int \<Rightarrow> tensor_iterator \<Rightarrow> tensor_iterator" where
  "set_sliced_input body_parameter v start stride part_size stop axis ti =
     ti\<lparr>ti_inputs := ti_inputs ti @ [v],
        ti_input_descriptions := ti_input_descriptions ti @
          [SliceInput body_parameter start stride part_size stop axis]\<rparr>"

definition set_merged_input ::
  "parameter \<Rightarrow> out \<Rightarrow> out \<Rightarrow> tensor_iterator \<Rightarrow> tensor_iterator" where
  "set_merged_input body_parameter initial_value successive_value ti =
     ti\<lparr>ti_inputs := ti_inputs ti @ [initial_value],
        ti_input_descriptions := ti_input_descriptions ti @
          [MergedInput body_parameter successive_value]\<rparr>"

definition get_iter_value :: "out \<Rightarrow> int \<Rightarrow> tensor_iterator \<Rightarrow> nat \<times> tensor_iterator" where
  "get_iter_value body_value iteration ti =
     (length (ti_output_descriptions ti),
      ti\<lparr>ti_output_descriptions := ti_output_descriptions ti @
        [BodyOutput body_value iteration]\<rparr>)"

definition get_concatenated_slices ::
  "out \<Rightarrow> int \<Rightarrow> int \<Rightarrow> int \<Rightarrow> int \<Rightarrow> int \<Rightarrow> tensor_iterator \<Rightarrow> nat \<times> tensor_iterator" where
  "get_concatenated_slices body_value start stride part_size stop axis ti =
     (length (ti_output_descriptions ti),
      ti\<lparr>ti_output_descriptions := ti_output_descriptions ti @
        [ConcatOutput body_value start stride part_size stop axis]\<rparr>)"

definition ti_output :: "tensor_iterator \<Rightarrow> nat \<Rightarrow> out" where
  "ti_output ti k =
     TensorIterator (ti_inputs ti) (ti_results ti) (ti_parameters ti)
       (ti_input_descriptions ti) (ti_output_descriptions ti) k"

text \<open>The loops of \<^verbatim>\<open>scan_to_tensor_iterator\<close>, one definition for each body. The state of
  the first three is the body: its parameter vector and its output vector.\<close>

text \<open>Lines 40 to 44: the state variables take the type and shape of the node inputs.\<close>

definition align_initial_value ::
  "(out \<Rightarrow> partial_shape) \<Rightarrow> (out \<Rightarrow> element_type) \<Rightarrow> out list \<Rightarrow> int \<Rightarrow> int \<Rightarrow>
   parameter list \<times> out list \<Rightarrow> error + parameter list \<times> out list" where
  "align_initial_value shp elt node_inputs in_offset i body =
     result_bind (vector_index (fst body) (size_t i)) (\<lambda>body_input.
     result_bind (vector_index node_inputs (size_t (i + in_offset))) (\<lambda>node_input.
       Inr (set_parameter
         (Param (param_id body_input) (get_element_type elt node_input)
            (get_partial_shape shp node_input))
         body)))"

text \<open>Lines 49 to 68: the parameter of a scan input gets extent 1 at the scan axis, and
  its consumers read it through a Squeeze.\<close>

definition align_scan_input ::
  "(out \<Rightarrow> partial_shape) \<Rightarrow> (string \<Rightarrow> int \<Rightarrow> nat option \<Rightarrow> error + int) \<Rightarrow> out list \<Rightarrow>
   nat \<Rightarrow> int list \<Rightarrow> int \<Rightarrow> string \<Rightarrow> int \<Rightarrow>
   parameter list \<times> out list \<Rightarrow> error + parameter list \<times> out list" where
  "align_scan_input shp normalize_axis node_inputs num_initial_values scan_input_axes in_offset
     node_description i body =
     (let in_idx = size_t (int num_initial_values + i) in
      result_bind (vector_index scan_input_axes (size_t i)) (\<lambda>axis.
      let axis_node = Constant i64 [1] [I64 axis] in
      result_bind (vector_index node_inputs (size_t (int in_idx + in_offset))) (\<lambda>node_input.
      result_bind
        (case get_partial_shape shp node_input of
           DynamicRank \<Rightarrow> Inr DynamicRank
         | Ranked ds \<Rightarrow>
             result_bind (normalize_axis node_description axis (rank (Ranked ds)))
               (\<lambda>normalized. set_dimension ds normalized (Static 1)))
        (\<lambda>shape.
      result_bind (vector_index (fst body) in_idx) (\<lambda>body_input.
      let aligned = Param (param_id body_input) (param_element_type body_input) shape;
          body' = set_parameter aligned body;
          squeeze = Op Squeeze_v0 [Parameter aligned, axis_node]
      in Inr (fst body',
              map (replace_source_output (param_id aligned) squeeze) (snd body')))))))"

text \<open>Lines 70 to 75: a scan output gets the dimension along which its slices are
  concatenated.\<close>

definition align_scan_output ::
  "nat \<Rightarrow> int list \<Rightarrow> int \<Rightarrow> parameter list \<times> out list \<Rightarrow> error + parameter list \<times> out list" where
  "align_scan_output num_initial_values scan_output_axes i body =
     (let out_idx = size_t (int num_initial_values + i) in
      result_bind (vector_index scan_output_axes (size_t i)) (\<lambda>axis.
      let axis_node = Constant i64 [1] [I64 axis] in
      result_bind (vector_index (snd body) out_idx) (\<lambda>body_output.
        Inr (fst body, (snd body)[out_idx := Op Unsqueeze_v0 [body_output, axis_node]]))))"

text \<open>Lines 83 to 93: the scan inputs are sliced along their axis, backwards when the
  direction is not 0.\<close>

definition slice_scan_input ::
  "(out \<Rightarrow> partial_shape) \<Rightarrow> (string \<Rightarrow> int \<Rightarrow> nat option \<Rightarrow> error + int) \<Rightarrow> out list \<Rightarrow>
   parameter list \<Rightarrow> nat \<Rightarrow> int list \<Rightarrow> int list \<Rightarrow> int \<Rightarrow> string \<Rightarrow> int \<Rightarrow>
   tensor_iterator \<Rightarrow> error + tensor_iterator" where
  "slice_scan_input shp normalize_axis node_inputs body_inputs num_initial_values scan_input_axes
     scan_input_directions in_offset node_description i ti =
     (let in_idx = size_t (int num_initial_values + i) in
      result_bind (vector_index scan_input_axes (size_t i)) (\<lambda>scan_input_axis.
      result_bind (vector_index node_inputs (size_t (int in_idx + in_offset))) (\<lambda>node_input.
      result_bind (normalize_axis node_description scan_input_axis
        (rank (get_partial_shape shp node_input))) (\<lambda>axis.
      result_bind (vector_index scan_input_directions (size_t i)) (\<lambda>direction.
      result_bind (vector_index body_inputs in_idx) (\<lambda>body_input.
        if direction \<noteq> 0 then
          Inr (set_sliced_input body_input node_input (- 1) (- 1) 1 0 axis ti)
        else
          Inr (set_sliced_input body_input node_input 0 1 1 (- 1) axis ti)))))))"

text \<open>Lines 97 to 101: a state variable is a back edge of the iterator, and its value
  after the last iteration is an output. The outputs are collected as the indices of the
  iterator's outputs.\<close>

definition merge_initial_value ::
  "out list \<Rightarrow> parameter list \<Rightarrow> out list \<Rightarrow> int \<Rightarrow> int \<Rightarrow>
   tensor_iterator \<times> nat list \<Rightarrow> error + tensor_iterator \<times> nat list" where
  "merge_initial_value node_inputs body_inputs body_outputs in_offset i state =
     result_bind (vector_index body_inputs (size_t i)) (\<lambda>body_input.
     result_bind (vector_index node_inputs (size_t (i + in_offset))) (\<lambda>node_input.
     result_bind (vector_index body_outputs (size_t i)) (\<lambda>body_output.
     let ti = set_merged_input body_input node_input body_output (fst state);
         iter_value = get_iter_value body_output (- 1) ti
     in Inr (snd iter_value, snd state @ [fst iter_value]))))"

text \<open>Lines 102 to 112: the slices of a scan output are concatenated along its axis,
  backwards when the direction is not 0.\<close>

definition concatenate_scan_output ::
  "(out \<Rightarrow> partial_shape) \<Rightarrow> (string \<Rightarrow> int \<Rightarrow> nat option \<Rightarrow> error + int) \<Rightarrow> out list \<Rightarrow>
   nat \<Rightarrow> int list \<Rightarrow> int list \<Rightarrow> string \<Rightarrow> int \<Rightarrow>
   tensor_iterator \<times> nat list \<Rightarrow> error + tensor_iterator \<times> nat list" where
  "concatenate_scan_output shp normalize_axis body_outputs num_initial_values scan_output_axes
     scan_output_directions node_description i state =
     (let out_idx = size_t (int num_initial_values + i) in
      result_bind (vector_index scan_output_axes (size_t i)) (\<lambda>scan_output_axis.
      result_bind (vector_index body_outputs out_idx) (\<lambda>body_output.
      result_bind (normalize_axis node_description scan_output_axis
        (rank (get_partial_shape shp body_output))) (\<lambda>axis.
      result_bind (vector_index scan_output_directions (size_t i)) (\<lambda>direction.
      let slices =
            (if direction \<noteq> 0 then
               get_concatenated_slices body_output (- 1) (- 1) 1 0 axis (fst state)
             else
               get_concatenated_slices body_output 0 1 1 (- 1) axis (fst state))
      in Inr (snd slices, snd state @ [fst slices]))))))"

text \<open>\<^verbatim>\<open>scan_to_tensor_iterator\<close>. Every output that it returns is an output of the one
  iterator that it builds, as the iterator stands when the function returns.\<close>

definition scan_to_tensor_iterator ::
  "(out \<Rightarrow> partial_shape) \<Rightarrow> (out \<Rightarrow> element_type) \<Rightarrow>
   (string \<Rightarrow> int \<Rightarrow> nat option \<Rightarrow> error + int) \<Rightarrow>
   out list \<Rightarrow> parameter list \<Rightarrow> out list \<Rightarrow> int \<Rightarrow> int list \<Rightarrow> int list \<Rightarrow> int list \<Rightarrow>
   int list \<Rightarrow> int \<Rightarrow> string \<Rightarrow> error + out list" where
  "scan_to_tensor_iterator shp elt normalize_axis node_inputs body_inputs body_outputs
     num_scan_inputs scan_input_axes scan_input_directions scan_output_axes
     scan_output_directions in_offset node_description =
     (let num_initial_values = size_t (int (length body_inputs) - num_scan_inputs);
          num_scan_outputs = size_t (int (length body_outputs) - int num_initial_values)
      in
      result_bind
        (for_loop 0 (int num_initial_values)
           (align_initial_value shp elt node_inputs in_offset) (body_inputs, body_outputs))
        (\<lambda>body1.
      result_bind
        (for_loop 0 num_scan_inputs
           (align_scan_input shp normalize_axis node_inputs num_initial_values scan_input_axes
              in_offset node_description) body1)
        (\<lambda>body2.
      result_bind
        (for_loop 0 (int num_scan_outputs)
           (align_scan_output num_initial_values scan_output_axes) body2)
        (\<lambda>body3.
      let tensor_iterator = set_function (snd body3) (fst body3) new_tensor_iterator in
      result_bind
        (for_loop 0 num_scan_inputs
           (slice_scan_input shp normalize_axis node_inputs (fst body3) num_initial_values
              scan_input_axes scan_input_directions in_offset node_description)
           tensor_iterator)
        (\<lambda>ti1.
      result_bind
        (for_loop 0 (int num_initial_values)
           (merge_initial_value node_inputs (fst body3) (snd body3) in_offset) (ti1, []))
        (\<lambda>state2.
      result_bind
        (for_loop 0 (int num_scan_outputs)
           (concatenate_scan_output shp normalize_axis (snd body3) num_initial_values
              scan_output_axes scan_output_directions node_description) state2)
        (\<lambda>state3. Inr (map (ti_output (fst state3)) (snd state3)))))))))"

text \<open>\<^verbatim>\<open>import_onnx_scan\<close>: the default vectors are built before the attributes are
  looked up.\<close>

definition import_onnx_scan ::
  "(out \<Rightarrow> partial_shape) \<Rightarrow> (out \<Rightarrow> element_type) \<Rightarrow>
   (string \<Rightarrow> int \<Rightarrow> nat option \<Rightarrow> error + int) \<Rightarrow>
   node \<Rightarrow> int \<Rightarrow> int \<Rightarrow> string \<Rightarrow> error + out list" where
  "import_onnx_scan shp elt normalize_axis n default_axis in_offset in_directions_attr_name =
     (let node_inputs = get_ng_inputs n in
      result_bind (map_at (get_subgraphs n) ''body'') (\<lambda>body_graph.
      let body_outputs = get_ov_outputs body_graph;
          body_inputs = get_ng_parameters body_graph
      in
      result_bind (get_attribute_int n ''num_scan_inputs'') (\<lambda>num_scan_inputs.
      let num_initial_values = size_t (int (length body_inputs) - num_scan_inputs);
          num_scan_outputs = size_t (int (length body_outputs) - int num_initial_values)
      in
      result_bind (vector_of (size_t num_scan_inputs) default_axis) (\<lambda>default_input_axes.
      result_bind (get_attribute_ints_or n ''scan_input_axes'' default_input_axes)
        (\<lambda>scan_input_axes.
      result_bind (vector_of (size_t num_scan_inputs) 0) (\<lambda>default_input_directions.
      result_bind (get_attribute_ints_or n in_directions_attr_name default_input_directions)
        (\<lambda>scan_input_directions.
      result_bind (vector_of num_scan_outputs default_axis) (\<lambda>default_output_axes.
      result_bind (get_attribute_ints_or n ''scan_output_axes'' default_output_axes)
        (\<lambda>scan_output_axes.
      result_bind (vector_of num_scan_outputs 0) (\<lambda>default_output_directions.
      result_bind (get_attribute_ints_or n ''scan_output_directions'' default_output_directions)
        (\<lambda>scan_output_directions.
        scan_to_tensor_iterator shp elt normalize_axis node_inputs body_inputs body_outputs
          num_scan_inputs scan_input_axes scan_input_directions scan_output_axes
          scan_output_directions in_offset (get_description n))))))))))))"

text \<open>\<^verbatim>\<open>set_1::scan\<close> (ONNX Scan-8) and \<^verbatim>\<open>set_9::scan\<close>.\<close>

definition scan_set_1 ::
  "(out \<Rightarrow> partial_shape) \<Rightarrow> (out \<Rightarrow> element_type) \<Rightarrow>
   (string \<Rightarrow> int \<Rightarrow> nat option \<Rightarrow> error + int) \<Rightarrow> node \<Rightarrow> error + out list" where
  "scan_set_1 shp elt normalize_axis n =
     result_bind (vector_at (get_ng_inputs n) 0) (\<lambda>sequence_lens.
     result_bind (openvino_assert (is_null sequence_lens)
       (get_description n @ '' ONNX Scan-8 `sequence_lens` input is not supported. '')) (\<lambda>_.
       import_onnx_scan shp elt normalize_axis n 1 1 ''directions''))"

definition scan_set_9 ::
  "(out \<Rightarrow> partial_shape) \<Rightarrow> (out \<Rightarrow> element_type) \<Rightarrow>
   (string \<Rightarrow> int \<Rightarrow> nat option \<Rightarrow> error + int) \<Rightarrow> node \<Rightarrow> error + out list" where
  "scan_set_9 shp elt normalize_axis n =
     import_onnx_scan shp elt normalize_axis n 0 0 ''scan_input_directions''"

section \<open>Example nodes\<close>

text \<open>Concrete nodes and a concrete runtime, on which the translators are run below.\<close>

definition example_tensor :: "nat \<Rightarrow> out" where
  "example_tensor k = Parameter (Param k f32 (Ranked [Static 2, Static 3]))"

definition example_element_types :: "int \<Rightarrow> error + element_type" where
  "example_element_types d =
     (if d = 1 then Inr f32 else if d = 11 then Inr f64
      else Inl (runtime_error ''unsupported data type''))"

definition example_random_normal ::
  "out \<Rightarrow> element_type \<Rightarrow> out \<Rightarrow> out \<Rightarrow> real \<Rightarrow> out list \<times> out list" where
  "example_random_normal sizes t mean scale seed =
     ([Op (Other ''RandomNormal'') [sizes, mean, scale]], [])"

definition example_random_normal_like_node :: node where
  "example_random_normal_like_node =
     \<lparr>get_ng_inputs = [example_tensor 0],
      attributes = [''dtype'' \<mapsto> AttrInt 11, ''mean'' \<mapsto> AttrFloat 2],
      get_subgraphs = Map.empty, get_description = ''RandomNormalLike''\<rparr>"

definition example_sqrt_node :: node where
  "example_sqrt_node =
     \<lparr>get_ng_inputs = [example_tensor 0, example_tensor 5], attributes = Map.empty,
      get_subgraphs = Map.empty, get_description = ''Sqrt''\<rparr>"

definition example_mul_node :: node where
  "example_mul_node =
     \<lparr>get_ng_inputs = [example_tensor 0, example_tensor 1, example_tensor 2],
      attributes = Map.empty, get_subgraphs = Map.empty, get_description = ''Mul''\<rparr>"

definition example_scatter_nd_node :: node where
  "example_scatter_nd_node =
     \<lparr>get_ng_inputs = [example_tensor 0, example_tensor 1, example_tensor 2],
      attributes = [''reduction'' \<mapsto> AttrString ''none''],
      get_subgraphs = Map.empty, get_description = ''ScatterND''\<rparr>"

definition example_make_dft :: "out \<Rightarrow> out \<Rightarrow> int \<Rightarrow> bool \<Rightarrow> bool \<Rightarrow> out" where
  "example_make_dft signal len axis is_inversed is_onesided = Op (Other ''DFT'') [signal, len]"

definition example_signal :: out where
  "example_signal = Parameter (Param 0 f32 (Ranked [Static 1, Static 4, Static 1]))"

definition example_stft_node :: node where
  "example_stft_node =
     \<lparr>get_ng_inputs = [example_signal, Constant i64 [] [I64 2]],
      attributes = Map.empty, get_subgraphs = Map.empty, get_description = ''STFT''\<rparr>"

definition example_dft_length_node :: node where
  "example_dft_length_node =
     \<lparr>get_ng_inputs = [example_signal, Constant i64 [] [I64 2], NullNode,
        Parameter (Param 1 i64 (Ranked []))],
      attributes = Map.empty, get_subgraphs = Map.empty, get_description = ''STFT''\<rparr>"

definition example_zero_step_node :: node where
  "example_zero_step_node =
     \<lparr>get_ng_inputs = [example_signal, Constant i64 [] [I64 0]],
      attributes = Map.empty, get_subgraphs = Map.empty, get_description = ''STFT''\<rparr>"

definition example_overflow_node :: node where
  "example_overflow_node =
     \<lparr>get_ng_inputs = [example_signal, Constant i64 [] [I64 (2 ^ 62)], NullNode,
        Constant i64 [] [I64 (- (2 ^ 63))]],
      attributes = Map.empty, get_subgraphs = Map.empty, get_description = ''STFT''\<rparr>"

definition example_least_quotient_node :: node where
  "example_least_quotient_node =
     \<lparr>get_ng_inputs = [example_signal, Constant i64 [] [I64 (- 1)], NullNode,
        Constant i64 [] [I64 (4 - 2 ^ 63)]],
      attributes = Map.empty, get_subgraphs = Map.empty, get_description = ''STFT''\<rparr>"

definition example_normalize_axis :: "string \<Rightarrow> int \<Rightarrow> nat option \<Rightarrow> error + int" where
  "example_normalize_axis description axis r =
     (case r of
        None \<Rightarrow> Inl (runtime_error ''Rank must be static in order to normalize axis'')
      | Some k \<Rightarrow>
          if - int k \<le> axis \<and> axis < int k
          then Inr (if axis < 0 then axis + int k else axis)
          else Inl (runtime_error ''Axis out of the tensor rank range''))"

fun example_shapes :: "out \<Rightarrow> partial_shape" where
  "example_shapes (Op Unsqueeze_v0 xs) = Ranked [Static 1, Static 2]"
| "example_shapes e = Ranked [Static 2]"

definition example_scan_body :: subgraph where
  "example_scan_body =
     \<lparr>get_ov_outputs =
        [Op Multiply_v1
           [Parameter (Param 10 f32 (Ranked [Static 2])),
            Parameter (Param 11 f32 (Ranked [Static 2]))],
         Op Sqrt_v0 [Parameter (Param 11 f32 (Ranked [Static 2]))]],
      get_ng_parameters =
        [Param 10 f32 (Ranked [Static 2]), Param 11 f32 (Ranked [Static 2])]\<rparr>"

definition example_scan_node :: node where
  "example_scan_node =
     \<lparr>get_ng_inputs =
        [Parameter (Param 0 f32 (Ranked [Static 2])),
         Parameter (Param 1 f32 (Ranked [Static 5, Static 2]))],
      attributes =
        [''num_scan_inputs'' \<mapsto> AttrInt 1, ''scan_input_directions'' \<mapsto> AttrInts [1]],
      get_subgraphs = [''body'' \<mapsto> example_scan_body],
      get_description = ''Scan''\<rparr>"

definition example_scan_8_node :: node where
  "example_scan_8_node =
     \<lparr>get_ng_inputs =
        [NullNode,
         Parameter (Param 0 f32 (Ranked [Static 2])),
         Parameter (Param 1 f32 (Ranked [Static 5, Static 2]))],
      attributes =
        [''num_scan_inputs'' \<mapsto> AttrInt 1, ''scan_input_directions'' \<mapsto> AttrInts [1]],
      get_subgraphs = [''body'' \<mapsto> example_scan_body],
      get_description = ''Scan''\<rparr>"

section \<open>Loops and results\<close>

lemma result_bind_Inr:
  "result_bind m f = Inr r \<longleftrightarrow> (\<exists>x. m = Inr x \<and> f x = Inr r)"
  by (cases m) auto

lemma for_loop_done: "\<not> i < bound \<Longrightarrow> for_loop i bound body s = Inr s"
  by (simp add: for_loop.simps)

lemma for_loop_step:
  "i < bound \<Longrightarrow> for_loop i bound body s =
     result_bind (body i s) (\<lambda>s'. for_loop (i + 1) bound body s')"
  by (subst for_loop.simps) simp

text \<open>A loop that returns has kept every invariant of its body.\<close>

lemma for_loop_invariant:
  assumes "for_loop i bound body s = Inr r"
    and "I i s"
    and "\<And>k t t'. i \<le> k \<Longrightarrow> k < bound \<Longrightarrow> I k t \<Longrightarrow> body k t = Inr t' \<Longrightarrow> I (k + 1) t'"
  shows "I (max i bound) r"
  using assms
proof (induction i bound body s rule: for_loop.induct)
  case (1 i bound body s)
  show ?case
  proof (cases "i < bound")
    case False
    with "1.prems"(1) have "r = s" by (simp add: for_loop_done)
    moreover from False have "max i bound = i" by simp
    ultimately show ?thesis using "1.prems"(2) by simp
  next
    case True
    with "1.prems"(1) obtain s' where s': "body i s = Inr s'"
      and rest: "for_loop (i + 1) bound body s' = Inr r"
      by (auto simp: for_loop_step result_bind_Inr)
    have inv: "I (i + 1) s'"
      using "1.prems"(3) [OF _ True "1.prems"(2) s'] by simp
    have "I (max (i + 1) bound) r"
    proof (rule "1.IH" [OF True rest inv])
      fix k t t'
      assume "i + 1 \<le> k" "k < bound" "I k t" "body k t = Inr t'"
      then show "I (k + 1) t'" using "1.prems"(3) [of k t t'] by simp
    qed
    moreover from True have "max (i + 1) bound = max i bound" by simp
    ultimately show ?thesis by simp
  qed
qed

text \<open>A loop whose body never fails returns.\<close>

lemma for_loop_total:
  assumes "\<And>k t. i \<le> k \<Longrightarrow> k < bound \<Longrightarrow> \<exists>t'. body k t = Inr t'"
  shows "\<exists>r. for_loop i bound body s = Inr r"
  using assms
proof (induction i bound body s rule: for_loop.induct)
  case (1 i bound body s)
  show ?case
  proof (cases "i < bound")
    case False
    then show ?thesis by (simp add: for_loop_done)
  next
    case True
    from "1.prems" [of i s] True obtain s' where s': "body i s = Inr s'" by auto
    have "\<exists>r. for_loop (i + 1) bound body s' = Inr r"
    proof (rule "1.IH" [OF True])
      fix k t
      assume "i + 1 \<le> k" "k < bound"
      then show "\<exists>t'. body k t = Inr t'" using "1.prems" [of k t] by simp
    qed
    then show ?thesis using True s' by (simp add: for_loop_step)
  qed
qed

section \<open>Sqrt and Mul\<close>

text \<open>C8. A sqrt node with an input 0 is translated to exactly one output, the Sqrt of
  input 0. A mul node of opset 7 with inputs 0 and 1 is translated to exactly one output,
  the Multiply of input 0 and input 1. The further inputs, the attributes and the
  subgraphs of the node do not occur in the result.\<close>

theorem sqrt_mul_single_output:
  "(get_ng_inputs n = x # rest \<longrightarrow> sqrt_set_1 n = Inr [Op Sqrt_v0 [x]]) \<and>
   (get_ng_inputs m = a # b # rest' \<longrightarrow> mul_set_7 m = Inr [Op Multiply_v1 [a, b]])"
  by (simp add: sqrt_set_1_def mul_set_7_def vector_at_def)

theorem sqrt_mul_single_output_witness:
  "get_ng_inputs example_sqrt_node = example_tensor 0 # [example_tensor 5] \<and>
   sqrt_set_1 example_sqrt_node = Inr [Op Sqrt_v0 [example_tensor 0]] \<and>
   get_ng_inputs example_mul_node = example_tensor 0 # example_tensor 1 # [example_tensor 2] \<and>
   mul_set_7 example_mul_node = Inr [Op Multiply_v1 [example_tensor 0, example_tensor 1]]"
  using sqrt_mul_single_output
    [of example_sqrt_node "example_tensor 0" "[example_tensor 5]"
        example_mul_node "example_tensor 0" "example_tensor 1" "[example_tensor 2]"]
  by (simp add: example_sqrt_node_def example_mul_node_def)

section \<open>ScatterND\<close>

text \<open>C4. For a scatter_nd node with the inputs 0, 1 and 2: the translation fails when
  the node carries a reduction attribute whose value is not the string none, and in
  every other case it returns exactly one output, the ScatterNDUpdate of input 0 (data),
  input 1 (indices) and input 2 (updates), in that order.\<close>

theorem scatter_nd_reduction:
  assumes "get_ng_inputs n = data # indices # updates # rest"
  shows "if \<exists>v. attributes n ''reduction'' = Some v \<and> v \<noteq> AttrString ''none''
         then \<exists>e. scatter_nd n = Inl e
         else scatter_nd n = Inr [Op ScatterNDUpdate_v3 [data, indices, updates]]"
  using assms
  by (auto simp: scatter_nd_def vector_at_def has_attribute_def get_attribute_string_or_def
      split: option.splits attribute.splits)

theorem scatter_nd_reduction_witness:
  "get_ng_inputs example_scatter_nd_node =
     example_tensor 0 # example_tensor 1 # example_tensor 2 # [] \<and>
   scatter_nd example_scatter_nd_node =
     Inr [Op ScatterNDUpdate_v3 [example_tensor 0, example_tensor 1, example_tensor 2]] \<and>
   (\<exists>e. scatter_nd
      (example_scatter_nd_node\<lparr>attributes := [''reduction'' \<mapsto> AttrString ''add'']\<rparr>) = Inl e)"
  using scatter_nd_reduction
    [of example_scatter_nd_node "example_tensor 0" "example_tensor 1" "example_tensor 2" "[]"]
    scatter_nd_reduction
    [of "example_scatter_nd_node\<lparr>attributes := [''reduction'' \<mapsto> AttrString ''add'']\<rparr>"
        "example_tensor 0" "example_tensor 1" "example_tensor 2" "[]"]
  by (simp add: example_scatter_nd_node_def)

text \<open>A scatter_nd node with fewer than three inputs is refused by \<^verbatim>\<open>vector::at\<close>, whatever
  its attributes.\<close>

lemma scatter_nd_missing_input:
  "length (get_ng_inputs n) < 3 \<Longrightarrow> scatter_nd n = Inl out_of_range"
  by (simp add: scatter_nd_def vector_at_def)

section \<open>RandomNormalLike\<close>

text \<open>C5. For a random_normal_like node with an input 0: the element type handed to the
  random-normal helper is the mapped value of the dtype attribute when the node carries
  one, and the element type of input 0 otherwise; the shape handed over is the ShapeOf of
  input 0; seed, mean and scale are the attributes of these names, 0, 0 and 1 when the
  node does not carry them; mean and scale are handed over as constants of shape \<open>[1]\<close>
  of the target element type; the translation returns the outputs of the helper.\<close>

theorem random_normal_like_arguments:
  assumes "get_ng_inputs n = input # rest"
    and "attributes n ''dtype'' = map_option AttrInt dtype"
    and "attributes n ''seed'' = map_option AttrFloat seed"
    and "attributes n ''mean'' = map_option AttrFloat mean"
    and "attributes n ''scale'' = map_option AttrFloat scale"
    and "case dtype of None \<Rightarrow> target = get_element_type elt input
         | Some d \<Rightarrow> get_ov_element_type d = Inr target"
  shows "random_normal_like elt get_ov_element_type make_random_normal n =
     Inr (fst (make_random_normal (Op ShapeOf_v0 [input]) target
       (Constant target [1] [F32 (case mean of None \<Rightarrow> 0 | Some v \<Rightarrow> v)])
       (Constant target [1] [F32 (case scale of None \<Rightarrow> 1 | Some v \<Rightarrow> v)])
       (case seed of None \<Rightarrow> 0 | Some v \<Rightarrow> v)))"
proof -
  have input: "vector_at (get_ng_inputs n) 0 = Inr input"
    using assms(1) by (simp add: vector_at_def)
  have target: "(if has_attribute n ''dtype''
      then result_bind (get_attribute_int n ''dtype'') get_ov_element_type
      else Inr (get_element_type elt input)) = Inr target"
    using assms(2,6) by (cases dtype) (simp_all add: has_attribute_def get_attribute_int_def)
  have seed: "get_attribute_float_or n ''seed'' 0 = Inr (case seed of None \<Rightarrow> 0 | Some v \<Rightarrow> v)"
    using assms(3) by (cases seed) (simp_all add: get_attribute_float_or_def)
  have mean: "get_attribute_float_or n ''mean'' 0 = Inr (case mean of None \<Rightarrow> 0 | Some v \<Rightarrow> v)"
    using assms(4) by (cases mean) (simp_all add: get_attribute_float_or_def)
  have scale: "get_attribute_float_or n ''scale'' 1 = Inr (case scale of None \<Rightarrow> 1 | Some v \<Rightarrow> v)"
    using assms(5) by (cases scale) (simp_all add: get_attribute_float_or_def)
  show ?thesis
    by (simp only: random_normal_like_def input result_bind.simps target seed mean scale Let_def)
qed

theorem random_normal_like_arguments_witness:
  "random_normal_like (\<lambda>e. dynamic_type) example_element_types example_random_normal
     example_random_normal_like_node =
     Inr [Op (Other ''RandomNormal'') [Op ShapeOf_v0 [example_tensor 0],
       Constant f64 [1] [F32 2], Constant f64 [1] [F32 1]]]"
  using random_normal_like_arguments [of example_random_normal_like_node "example_tensor 0" "[]"
      "Some 11" None "Some 2" None f64 "\<lambda>e. dynamic_type" example_element_types
      example_random_normal]
  by (simp add: example_random_normal_like_node_def example_element_types_def
      example_random_normal_def)


section \<open>STFT: the frames\<close>



lemma int64_div_nat: "b \<noteq> 0 \<Longrightarrow> int64_div (int a) b = Inr (int64_quotient (int a) b)"
  by (simp add: int64_div_def)





section \<open>STFT: validation\<close>

lemma is_complex_Op:
  "shp (Op t xs) \<noteq> Ranked [] \<Longrightarrow> \<exists>c. is_complex shp (Op t xs) = Inr c"
  by (auto simp: is_complex.simps split: partial_shape.splits list.splits)

lemma stft_signal_total:
  assumes "\<And>xs. shp (Op Slice_v8 xs) \<noteq> Ranked []"
    and "\<And>xs. shp (Op (Reshape_v1 False) xs) \<noteq> Ranked []"
  shows "\<exists>t'. stft_signal shp make_dft ng_inputs signal wp dp onesided frame_step frame_length
     batch sig_idx t = Inr t'"
proof -
  obtain c where c: "is_complex shp (Op Slice_v8
      [signal,
       Constant i64 [2] [I64 batch, I64 (int64 (sig_idx * frame_step))],
       Constant i64 [2]
           [I64 (int64 (batch + 1)), I64 (int64 (int64 (sig_idx * frame_step) + frame_length))],
       Constant i64 [2] [I64 1, I64 1],
       Constant i64 [2] [I64 0, I64 1]]) = Inr c"
    using is_complex_Op [of shp Slice_v8] assms(1) by blast
  show ?thesis
  proof (cases wp)
    case False
    with c show ?thesis by (simp add: stft_signal_def Let_def)
  next
    case True
    obtain c' where "is_complex shp (Op (Reshape_v1 False)
      [Op Slice_v8
        [signal,
         Constant i64 [2] [I64 batch, I64 (int64 (sig_idx * frame_step))],
         Constant i64 [2]
           [I64 (int64 (batch + 1)), I64 (int64 (int64 (sig_idx * frame_step) + frame_length))],
         Constant i64 [2] [I64 1, I64 1],
         Constant i64 [2] [I64 0, I64 1]],
       if c then Constant i64 [2] [I64 (- 1), I64 2]
       else if onesided \<noteq> 0 then Constant i64 [1] [I64 (- 1)]
       else Constant i64 [2] [I64 (- 1), I64 1]]) = Inr c'"
      using is_complex_Op [of shp "Reshape_v1 False"] assms(2) by blast
    with c True show ?thesis by (simp add: stft_signal_def Let_def)
  qed
qed

lemma stft_batch_total:
  assumes "\<And>xs. shp (Op Slice_v8 xs) \<noteq> Ranked []"
    and "\<And>xs. shp (Op (Reshape_v1 False) xs) \<noteq> Ranked []"
  shows "\<exists>t'. stft_batch shp make_dft ng_inputs signal wp dp onesided frame_step frame_length
     nstfts batch t = Inr t'"
proof -
  have "\<exists>r. for_loop 0 nstfts
      (stft_signal shp make_dft ng_inputs signal wp dp onesided frame_step frame_length batch)
      [] = Inr r"
    by (rule for_loop_total) (rule stft_signal_total [OF assms])
  then show ?thesis by (auto simp: stft_batch_def)
qed

lemma stft_loops_total:
  assumes "\<And>xs. shp (Op Slice_v8 xs) \<noteq> Ranked []"
    and "\<And>xs. shp (Op (Reshape_v1 False) xs) \<noteq> Ranked []"
  shows "\<exists>r. for_loop 0 batch_size
      (stft_batch shp make_dft ng_inputs signal wp dp onesided frame_step frame_length nstfts)
      [] = Inr r"
  by (rule for_loop_total) (rule stft_batch_total [OF assms])

text \<open>The check of the window input passes or is a validation error.\<close>

lemma window_check:
  "(case get_partial_shape shp window of
      DynamicRank \<Rightarrow> Inr ()
    | Ranked window_dims \<Rightarrow>
        result_bind (check_valid_node (length window_dims = 1) m1) (\<lambda>_.
        case window_dims ! 0 of
          Static window_length \<Rightarrow> check_valid_node (int window_length = frame_length) m2
        | Dynamic \<Rightarrow> Inr ())) =
   (if \<exists>ds. get_partial_shape shp window = Ranked ds \<and> length ds \<noteq> 1
    then Inl (validation_error m1)
    else if \<exists>w. get_partial_shape shp window = Ranked [Static w] \<and> int w \<noteq> frame_length
    then Inl (validation_error m2)
    else Inr ())"
proof (cases "get_partial_shape shp window")
  case DynamicRank
  then show ?thesis by simp
next
  case (Ranked ds)
  show ?thesis
  proof (cases "length ds = 1")
    case False
    with Ranked show ?thesis by (simp add: check_valid_node_def)
  next
    case True
    then obtain d where ds: "ds = [d]" by (cases ds) auto
    with Ranked show ?thesis by (cases d) (auto simp: check_valid_node_def)
  qed
qed

text \<open>C3, as amended. Take an stft node with inputs 0 and 1 whose onesided attribute
  is an integer or absent (then 1). Let the constant frame_step, when it has at most one
  element, hold the nonzero value \<open>frame_step\<close>, and let a provided constant input 3
  with at most one element hold the value \<open>dft_length\<close>; let the division of line 81 not
  be that of the least \<^verbatim>\<open>int64_t\<close> value by \<open>- 1\<close> (which takes a \<open>frame_step\<close> of \<open>- 1\<close> and
  an overflow of \<open>signal_length - frame_length\<close>); let the runtime infer no shape
  of rank 0 for a Slice or a Reshape. Then the translation fails with a validation error
  exactly when one of these holds, and returns one output otherwise:
  input 1 is not a constant with at most one element;
  the shape of the signal is not static of rank 3;
  input 3 is provided and is not a constant with at most one element;
  the window (input 2) is provided and has a static rank other than 1;
  the window is provided and has a static length other than \<open>frame_length\<close>;
  onesided is 1 and the innermost dimension of the signal is 2.\<close>

theorem stft_validation:
  assumes inputs: "1 < length (get_ng_inputs n)"
    and onesided: "get_attribute_int_or n ''onesided'' 1 = Inr onesided"
    and step: "is_constant_of_size_le_1 (get_ng_inputs n ! 1) \<Longrightarrow>
      first_int64 (get_ng_inputs n ! 1) = Inr frame_step \<and> frame_step \<noteq> 0"
    and len: "3 < length (get_ng_inputs n) \<Longrightarrow> is_constant_of_size_le_1 (get_ng_inputs n ! 3) \<Longrightarrow>
      first_int64 (get_ng_inputs n ! 3) = Inr dft_length"
    and quotient: "\<And>b l d.
      get_partial_shape shp (get_ng_inputs n ! 0) = Ranked [Static b, Static l, Static d] \<Longrightarrow>
      \<not> (frame_step = - 1 \<and>
         int64 (int l -
           (if 3 < length (get_ng_inputs n) \<and> \<not> is_null (get_ng_inputs n ! 3) then dft_length
            else int64_quotient (int l) frame_step)) = - (2 ^ 63))"
    and slices: "\<And>xs. shp (Op Slice_v8 xs) \<noteq> Ranked []"
    and reshapes: "\<And>xs. shp (Op (Reshape_v1 False) xs) \<noteq> Ranked []"
  shows
    "let ng_inputs = get_ng_inputs n;
         signal = ng_inputs ! 0;
         window_node_provided = (2 < length ng_inputs \<and> \<not> is_null (ng_inputs ! 2));
         dft_length_provided = (3 < length ng_inputs \<and> \<not> is_null (ng_inputs ! 3))
     in
     if \<not> is_constant_of_size_le_1 (ng_inputs ! 1)
        \<or> (\<nexists>b l d. get_partial_shape shp signal = Ranked [Static b, Static l, Static d])
        \<or> (dft_length_provided \<and> \<not> is_constant_of_size_le_1 (ng_inputs ! 3))
        \<or> (window_node_provided \<and>
            (\<exists>ds. get_partial_shape shp (ng_inputs ! 2) = Ranked ds \<and> length ds \<noteq> 1))
        \<or> (window_node_provided \<and>
            (\<exists>w b l d. get_partial_shape shp (ng_inputs ! 2) = Ranked [Static w] \<and>
               get_partial_shape shp signal = Ranked [Static b, Static l, Static d] \<and>
               int w \<noteq> (if dft_length_provided then dft_length
                         else int64_quotient (int l) frame_step)))
        \<or> (onesided = 1 \<and>
            (\<exists>b l. get_partial_shape shp signal = Ranked [Static b, Static l, Static 2]))
     then \<exists>msg. stft shp make_dft n = Inl (validation_error msg)
     else \<exists>out. stft shp make_dft n = Inr [out]"
proof -
  define ng_inputs where "ng_inputs = get_ng_inputs n"
  define signal where "signal = ng_inputs ! 0"
  define wp where "wp = (2 < length ng_inputs \<and> \<not> is_null (ng_inputs ! 2))"
  define dp where "dp = (3 < length ng_inputs \<and> \<not> is_null (ng_inputs ! 3))"
  have at0: "vector_at (get_ng_inputs n) 0 = Inr signal"
    and at1: "vector_at (get_ng_inputs n) 1 = Inr (get_ng_inputs n ! 1)"
    using inputs by (auto simp: vector_at_def signal_def ng_inputs_def)
  define after_step where "after_step = (\<lambda>frame_step.
      case get_partial_shape shp signal of
        Ranked [Static batch_size, Static signal_length, Static innermost] \<Rightarrow>
          result_bind (int64_div (int signal_length) frame_step) (\<lambda>default_frame_length.
          result_bind
            (if dp then
               result_bind (check_valid_node (is_constant_of_size_le_1 (ng_inputs ! 3))
                 ''frame_length input must be a scalar or Shape{1} constant.'') (\<lambda>_.
               first_int64 (ng_inputs ! 3))
             else Inr default_frame_length)
            (\<lambda>frame_length.
          result_bind
            (if wp then
               (case get_partial_shape shp (ng_inputs ! 2) of
                  DynamicRank \<Rightarrow> Inr ()
                | Ranked window_dims \<Rightarrow>
                    result_bind (check_valid_node (length window_dims = 1)
                      ''The rank of window input must be 1D.'') (\<lambda>_.
                    case window_dims ! 0 of
                      Static window_length \<Rightarrow>
                        check_valid_node (int window_length = frame_length)
                          ''The length of window input must be equal to frame_length.''
                    | Dynamic \<Rightarrow> Inr ()))
             else Inr ())
            (\<lambda>_.
          result_bind
            (if onesided = 1 then
               result_bind (is_complex shp signal) (\<lambda>signal_is_complex.
                 check_valid_node (\<not> signal_is_complex)
                   ''If attribute onesided==1, signal input can NOT be complex.'')
             else Inr ())
            (\<lambda>_.
          result_bind (int64_div (int64 (int signal_length - frame_length)) frame_step)
            (\<lambda>quotient.
          let nstfts = int64 (quotient + 1) in
          result_bind
            (for_loop 0 (int batch_size)
               (stft_batch shp make_dft ng_inputs signal wp dp onesided frame_step
                  frame_length nstfts) [])
            (\<lambda>all_signals. Inr [Op (Concat_v0 0) all_signals]))))))
      | _ \<Rightarrow> Inl (validation_error
          ''Shape of signal input must be static with the rank equal to 3.''))"
  have unfolded: "stft shp make_dft n =
      result_bind (check_valid_node (is_constant_of_size_le_1 (ng_inputs ! 1))
        ''frame_step input must be a scalar or Shape{1} constant.'') (\<lambda>_.
      result_bind (first_int64 (ng_inputs ! 1)) after_step)"
    unfolding stft_def after_step_def Let_def wp_def dp_def ng_inputs_def
    by (simp only: at0 at1 onesided result_bind.simps)
  let ?cond = "\<not> is_constant_of_size_le_1 (ng_inputs ! 1)
        \<or> (\<nexists>b l d. get_partial_shape shp signal = Ranked [Static b, Static l, Static d])
        \<or> (dp \<and> \<not> is_constant_of_size_le_1 (ng_inputs ! 3))
        \<or> (wp \<and> (\<exists>ds. get_partial_shape shp (ng_inputs ! 2) = Ranked ds \<and> length ds \<noteq> 1))
        \<or> (wp \<and>
            (\<exists>w b l d. get_partial_shape shp (ng_inputs ! 2) = Ranked [Static w] \<and>
               get_partial_shape shp signal = Ranked [Static b, Static l, Static d] \<and>
               int w \<noteq> (if dp then dft_length else int64_quotient (int l) frame_step)))
        \<or> (onesided = 1 \<and>
            (\<exists>b l. get_partial_shape shp signal = Ranked [Static b, Static l, Static 2]))"
  have main: "if ?cond then \<exists>msg. stft shp make_dft n = Inl (validation_error msg)
     else \<exists>out. stft shp make_dft n = Inr [out]"
  proof (cases "is_constant_of_size_le_1 (ng_inputs ! 1)")
    case False
    then show ?thesis by (simp add: unfolded check_valid_node_def)
  next
    case is_const: True
    with step have fs: "first_int64 (ng_inputs ! 1) = Inr frame_step" and nz: "frame_step \<noteq> 0"
      by (simp_all add: ng_inputs_def)
    have s1: "stft shp make_dft n = after_step frame_step"
      using is_const fs by (simp add: unfolded check_valid_node_def)
    show ?thesis
    proof (cases "\<exists>b l d. get_partial_shape shp signal = Ranked [Static b, Static l, Static d]")
      case False
      then have "after_step frame_step = Inl (validation_error
          ''Shape of signal input must be static with the rank equal to 3.'')"
        unfolding after_step_def
        by (auto split: partial_shape.splits list.splits dimension.splits)
      with False show ?thesis by (simp add: s1)
    next
      case True
      then obtain b l d where
        shape: "get_partial_shape shp signal = Ranked [Static b, Static l, Static d]"
        by blast
      show ?thesis
      proof (cases "dp \<and> \<not> is_constant_of_size_le_1 (ng_inputs ! 3)")
        case True
        then have "after_step frame_step = Inl (validation_error
            ''frame_length input must be a scalar or Shape{1} constant.'')"
          unfolding after_step_def
          by (simp add: shape int64_div_nat [OF nz] check_valid_node_def)
        with True show ?thesis by (simp add: s1)
      next
        case dft_ok: False
        define frame_length where
          "frame_length = (if dp then dft_length else int64_quotient (int l) frame_step)"
        have fl: "(if dp then
               result_bind (check_valid_node (is_constant_of_size_le_1 (ng_inputs ! 3))
                 ''frame_length input must be a scalar or Shape{1} constant.'') (\<lambda>_.
               first_int64 (ng_inputs ! 3))
             else Inr (int64_quotient (int l) frame_step)) = Inr frame_length"
          using dft_ok len
          by (auto simp: frame_length_def check_valid_node_def dp_def ng_inputs_def)
        have "\<not> (frame_step = - 1 \<and> int64 (int l - frame_length) = - (2 ^ 63))"
          using quotient [OF shape [unfolded signal_def ng_inputs_def]]
          by (simp add: frame_length_def dp_def ng_inputs_def)
        with nz have division:
          "int64_div (int64 (int l - frame_length)) frame_step =
             Inr (int64_quotient (int64 (int l - frame_length)) frame_step)"
          by (auto simp: int64_div_def)
        define window_check where "window_check =
            (if wp then
               (case get_partial_shape shp (ng_inputs ! 2) of
                  DynamicRank \<Rightarrow> Inr ()
                | Ranked window_dims \<Rightarrow>
                    result_bind (check_valid_node (length window_dims = 1)
                      ''The rank of window input must be 1D.'') (\<lambda>_.
                    case window_dims ! 0 of
                      Static window_length \<Rightarrow>
                        check_valid_node (int window_length = frame_length)
                          ''The length of window input must be equal to frame_length.''
                    | Dynamic \<Rightarrow> Inr ()))
             else Inr ())"
        define onesided_check where "onesided_check =
            (if onesided = 1 then
               result_bind (is_complex shp signal) (\<lambda>signal_is_complex.
                 check_valid_node (\<not> signal_is_complex)
                   ''If attribute onesided==1, signal input can NOT be complex.'')
             else Inr ())"
        have s2: "stft shp make_dft n =
            result_bind window_check (\<lambda>_.
            result_bind onesided_check (\<lambda>_.
            result_bind
              (for_loop 0 (int b)
                 (stft_batch shp make_dft ng_inputs signal wp dp onesided frame_step
                    frame_length
                    (int64 (int64_quotient (int64 (int l - frame_length)) frame_step + 1)))
                 [])
              (\<lambda>all_signals. Inr [Op (Concat_v0 0) all_signals])))"
          unfolding s1 after_step_def window_check_def onesided_check_def
          by (simp add: shape int64_div_nat [OF nz] fl division Let_def)
        have w: "window_check =
            (if wp \<and> (\<exists>ds. get_partial_shape shp (ng_inputs ! 2) = Ranked ds \<and> length ds \<noteq> 1)
             then Inl (validation_error ''The rank of window input must be 1D.'')
             else if wp \<and> (\<exists>w. get_partial_shape shp (ng_inputs ! 2) = Ranked [Static w] \<and>
                 int w \<noteq> frame_length)
             then Inl (validation_error
               ''The length of window input must be equal to frame_length.'')
             else Inr ())"
          unfolding window_check_def by (simp add: window_check)
        have o: "onesided_check =
            (if onesided = 1 \<and> d = 2
             then Inl (validation_error
               ''If attribute onesided==1, signal input can NOT be complex.'')
             else Inr ())"
          unfolding onesided_check_def
          by (simp add: is_complex.simps shape check_valid_node_def)
        obtain all_signals where loops: "for_loop 0 (int b)
                 (stft_batch shp make_dft ng_inputs signal wp dp onesided frame_step
                    frame_length
                    (int64 (int64_quotient (int64 (int l - frame_length)) frame_step + 1)))
                 [] = Inr all_signals"
          using stft_loops_total [OF slices reshapes] by blast
        have cond: "?cond \<longleftrightarrow>
            (wp \<and> (\<exists>ds. get_partial_shape shp (ng_inputs ! 2) = Ranked ds \<and> length ds \<noteq> 1))
            \<or> (wp \<and> (\<exists>w. get_partial_shape shp (ng_inputs ! 2) = Ranked [Static w] \<and>
                 int w \<noteq> frame_length))
            \<or> (onesided = 1 \<and> d = 2)"
          using is_const dft_ok shape by (auto simp: frame_length_def)
        show ?thesis
          unfolding cond s2 w o by (auto simp: loops)
      qed
    qed
  qed
  show ?thesis
    using main unfolding Let_def ng_inputs_def signal_def wp_def dp_def .
qed

theorem stft_validation_witness:
  "(\<exists>out. stft (\<lambda>e. DynamicRank) example_make_dft example_stft_node = Inr [out]) \<and>
   (\<exists>msg. stft (\<lambda>e. DynamicRank) example_make_dft example_dft_length_node =
      Inl (validation_error msg))"
  using stft_validation [where n = example_stft_node and onesided = 1 and frame_step = 2
      and dft_length = 0 and shp = "\<lambda>e. DynamicRank" and make_dft = example_make_dft]
    stft_validation [where n = example_dft_length_node and onesided = 1 and frame_step = 2
      and dft_length = 0 and shp = "\<lambda>e. DynamicRank" and make_dft = example_make_dft]
  by (simp add: example_stft_node_def example_dft_length_node_def example_signal_def
      get_attribute_int_or_def vector_index_def shape_size_def Let_def)

text \<open>C3, as stated, leaves out the check of input 3. The node below has a scalar
  constant frame_step, a signal of static shape \<open>[1, 4, 1]\<close>, no window and the default
  onesided, so none of the five conditions of the claim holds; its input 3 is no
  constant, and the translation fails with a validation error.\<close>

theorem stft_validation_counterexample:
  "stft (\<lambda>e. DynamicRank) example_make_dft example_dft_length_node =
     Inl (validation_error ''frame_length input must be a scalar or Shape{1} constant.'') \<and>
   get_ng_inputs example_dft_length_node ! 1 = Constant i64 [] [I64 2] \<and>
   get_partial_shape (\<lambda>e. DynamicRank) (get_ng_inputs example_dft_length_node ! 0) =
     Ranked [Static 1, Static 4, Static 1] \<and>
   is_null (get_ng_inputs example_dft_length_node ! 2) \<and>
   get_attribute_int_or example_dft_length_node ''onesided'' 1 = Inr 1"
  by (simp add: stft_def example_dft_length_node_def example_signal_def
      vector_at_def vector_index_def get_attribute_int_or_def check_valid_node_def shape_size_def
      int64_div_def int64_quotient_def Let_def)

section \<open>STFT: a frame_step of zero\<close>

text \<open>A constant frame_step of value 0 passes the check of input 1. With a signal of
  static rank 3 the default \<open>frame_length\<close> is then computed by a division by zero.\<close>

lemma stft_frame_step_zero:
  assumes "get_ng_inputs n = signal # Constant t sh (x # xs) # rest"
    and "shape_size sh \<le> 1"
    and "to_int64 x = 0"
    and "get_attribute_int_or n ''onesided'' 1 = Inr onesided"
    and "get_partial_shape shp signal = Ranked [Static b, Static l, Static d]"
  shows "stft shp make_dft n = Inl undefined_behaviour"
  using assms
  by (simp add: stft_def vector_at_def vector_index_def check_valid_node_def int64_div_def
      Let_def)

text \<open>C10. The claim is that the check of the frame_step input excludes the value 0
  before the division of line 49. This node has the scalar constant 0 as frame_step: the
  check passes, the divisor is 0, and the translation ends in the undefined division.\<close>

theorem stft_zero_frame_step:
  "check_valid_node (is_constant_of_size_le_1 (get_ng_inputs example_zero_step_node ! 1))
     ''frame_step input must be a scalar or Shape{1} constant.'' = Inr () \<and>
   first_int64 (get_ng_inputs example_zero_step_node ! 1) = Inr 0 \<and>
   int64_div 4 0 = Inl undefined_behaviour \<and>
   stft shp make_dft example_zero_step_node = Inl undefined_behaviour"
  by (simp add: stft_def example_zero_step_node_def example_signal_def
      vector_at_def vector_index_def get_attribute_int_or_def check_valid_node_def shape_size_def
      int64_div_def Let_def)

section \<open>STFT: the 64-bit arithmetic\<close>

text \<open>With a signal of length 4, a \<open>frame_step\<close> of \<open>2 ^ 62\<close> and a \<open>dft_length\<close> of
  \<open>- 2 ^ 63\<close>, the difference \<open>4 - (- 2 ^ 63)\<close> leaves the range: the code computes
  \<open>4 - 2 ^ 63\<close>, a quotient of \<open>- 1\<close> and no frame.\<close>

lemma stft_overflow:
  "stft (\<lambda>e. DynamicRank) example_make_dft example_overflow_node =
     Inr [Op (Concat_v0 0)
       [Op Unsqueeze_v0 [Op (Concat_v0 0) [], Constant i64 [] [I64 0]]]]"
  by (simp add: stft_def example_overflow_node_def example_signal_def
      vector_at_def vector_index_def get_attribute_int_or_def check_valid_node_def shape_size_def
      int64_div_def int64_quotient_def int64_def is_complex.simps stft_batch_def
      for_loop.simps Let_def)

text \<open>With a \<open>frame_step\<close> of \<open>- 1\<close> and a \<open>dft_length\<close> of \<open>4 - 2 ^ 63\<close>, the difference is
  computed as the least value, whose quotient by \<open>- 1\<close> is undefined.\<close>

lemma stft_least_quotient:
  "stft (\<lambda>e. DynamicRank) example_make_dft example_least_quotient_node =
     Inl undefined_behaviour"
  by (simp add: stft_def example_least_quotient_node_def example_signal_def
      vector_at_def vector_index_def get_attribute_int_or_def check_valid_node_def shape_size_def
      int64_div_def int64_quotient_def int64_def is_complex.simps Let_def)

section \<open>Scan: the loops\<close>

lemma size_t_id: "0 \<le> x \<Longrightarrow> x < 2 ^ 64 \<Longrightarrow> size_t x = nat x"
  by (simp add: size_t_def)

lemma size_t_less: "int (size_t x) < 2 ^ 64"
  by (simp add: size_t_def)

lemma vector_index_Inr:
  "vector_index xs i = Inr x \<longleftrightarrow> i < length xs \<and> x = xs ! i"
  by (auto simp: vector_index_def)

lemma vector_of_Inr: "vector_of c x = Inr v \<Longrightarrow> v = replicate c x"
  by (simp add: vector_of_def split: if_splits)

lemma upt_append_shifted: "[0..<a] @ map (\<lambda>j. a + j) [0..<b] = [0..<a + b]"
  by (induction b) simp_all

lemma set_parameter_shape:
  "length (fst (set_parameter p b)) = length (fst b)"
  "length (snd (set_parameter p b)) = length (snd b)"
  "map param_id (fst (set_parameter p b)) = map param_id (fst b)"
  by (auto simp: set_parameter_def)

text \<open>The alignment loops keep the sizes of the body and the identities of its
  parameters, and stay within the vectors.\<close>

lemma align_initial_values:
  assumes loop: "for_loop 0 (int niv) (align_initial_value shp elt node_inputs off) b0 = Inr b1"
    and ranges: "int niv < 2 ^ 64"
  shows "length (fst b1) = length (fst b0) \<and> length (snd b1) = length (snd b0) \<and>
    map param_id (fst b1) = map param_id (fst b0) \<and> niv \<le> length (fst b0)"
proof -
  define I where "I = (\<lambda>k (b::parameter list \<times> out list).
    length (fst b) = length (fst b0) \<and> length (snd b) = length (snd b0) \<and>
    map param_id (fst b) = map param_id (fst b0) \<and> nat k \<le> length (fst b0))"
  have "I (max 0 (int niv)) b1"
  proof (rule for_loop_invariant [OF loop])
    show "I 0 b0" by (simp add: I_def)
  next
    fix k t t'
    assume k: "0 \<le> k" "k < int niv" and inv: "I k t"
      and body: "align_initial_value shp elt node_inputs off k t = Inr t'"
    from k ranges have st: "size_t k = nat k" by (simp add: size_t_id)
    from body obtain p where "nat k < length (fst t)" and "t' = set_parameter p t"
      by (auto simp: align_initial_value_def st result_bind_Inr vector_index_Inr)
    with inv k show "I (k + 1) t'"
      by (auto simp: I_def set_parameter_shape)
  qed
  then show ?thesis by (simp add: I_def)
qed

lemma align_scan_inputs:
  assumes loop: "for_loop 0 nsi
      (align_scan_input shp na node_inputs niv axes off desc) b1 = Inr b2"
    and ranges: "int niv + nsi < 2 ^ 64"
  shows "length (fst b2) = length (fst b1) \<and> length (snd b2) = length (snd b1) \<and>
    map param_id (fst b2) = map param_id (fst b1) \<and>
    (0 < nsi \<longrightarrow> niv + nat nsi \<le> length (fst b1))"
proof -
  define I where "I = (\<lambda>k (b::parameter list \<times> out list).
    length (fst b) = length (fst b1) \<and> length (snd b) = length (snd b1) \<and>
    map param_id (fst b) = map param_id (fst b1) \<and>
    (0 < k \<longrightarrow> niv + nat k \<le> length (fst b1)))"
  have "I (max 0 nsi) b2"
  proof (rule for_loop_invariant [OF loop])
    show "I 0 b1" by (simp add: I_def)
  next
    fix k t t'
    assume k: "0 \<le> k" "k < nsi" and inv: "I k t"
      and body: "align_scan_input shp na node_inputs niv axes off desc k t = Inr t'"
    from k ranges have st: "size_t (int niv + k) = niv + nat k"
      by (simp add: size_t_id nat_add_distrib)
    from body k obtain shape where "niv + nat k < length (fst t)"
      and "t' =
        (fst (set_parameter
           (Param (param_id (fst t ! (niv + nat k)))
              (param_element_type (fst t ! (niv + nat k))) shape) t),
         map (replace_source_output (param_id (fst t ! (niv + nat k)))
           (Op Squeeze_v0
              [Parameter (Param (param_id (fst t ! (niv + nat k)))
                 (param_element_type (fst t ! (niv + nat k))) shape),
               Constant i64 [1] [I64 (axes ! size_t k)]]))
           (snd (set_parameter
              (Param (param_id (fst t ! (niv + nat k)))
                 (param_element_type (fst t ! (niv + nat k))) shape) t)))"
      by (auto simp: align_scan_input_def Let_def st result_bind_Inr vector_index_Inr)
    with inv k show "I (k + 1) t'"
      by (auto simp: I_def set_parameter_shape)
  qed
  then show ?thesis by (auto simp: I_def max_def split: if_splits)
qed

lemma align_scan_outputs_length:
  assumes loop: "for_loop 0 bound (align_scan_output niv out_axes) b2 = Inr b3"
  shows "fst b3 = fst b2 \<and> length (snd b3) = length (snd b2)"
proof -
  have "fst b3 = fst b2 \<and> length (snd b3) = length (snd b2)"
  proof (rule for_loop_invariant [OF loop,
        where I = "\<lambda>k b. fst b = fst b2 \<and> length (snd b) = length (snd b2)"])
    show "fst b2 = fst b2 \<and> length (snd b2) = length (snd b2)" by simp
  next
    fix k t t'
    assume "fst t = fst b2 \<and> length (snd t) = length (snd b2)"
      and "align_scan_output niv out_axes k t = Inr t'"
    then show "fst t' = fst b2 \<and> length (snd t') = length (snd b2)"
      by (auto simp: align_scan_output_def Let_def result_bind_Inr)
  qed
  then show ?thesis .
qed

lemma align_scan_outputs:
  assumes loop: "for_loop 0 (int nso) (align_scan_output niv out_axes) b2 = Inr b3"
    and ranges: "int niv + int nso < 2 ^ 64"
  shows "fst b3 = fst b2 \<and> length (snd b3) = length (snd b2) \<and>
    (0 < nso \<longrightarrow> niv + nso \<le> length (snd b2)) \<and>
    (\<forall>i<length (snd b2). snd b3 ! i =
       (if niv \<le> i \<and> i < niv + nso
        then Op Unsqueeze_v0 [snd b2 ! i, Constant i64 [1] [I64 (out_axes ! (i - niv))]]
        else snd b2 ! i))"
proof -
  define I where "I = (\<lambda>k (b::parameter list \<times> out list).
    fst b = fst b2 \<and> length (snd b) = length (snd b2) \<and>
    (0 < k \<longrightarrow> niv + nat k \<le> length (snd b2)) \<and>
    (\<forall>i<length (snd b2). snd b ! i =
       (if niv \<le> i \<and> i < niv + nat k
        then Op Unsqueeze_v0 [snd b2 ! i, Constant i64 [1] [I64 (out_axes ! (i - niv))]]
        else snd b2 ! i)))"
  have "I (max 0 (int nso)) b3"
  proof (rule for_loop_invariant [OF loop])
    show "I 0 b2" by (auto simp: I_def)
  next
    fix k t t'
    assume k: "0 \<le> k" "k < int nso" and inv: "I k t"
      and body: "align_scan_output niv out_axes k t = Inr t'"
    from k ranges have st: "size_t k = nat k" "size_t (int niv + k) = niv + nat k"
      by (simp_all add: size_t_id nat_add_distrib)
    from body have a: "nat k < length out_axes" "niv + nat k < length (snd t)"
      and t': "t' = (fst t, (snd t)[niv + nat k :=
          Op Unsqueeze_v0 [snd t ! (niv + nat k), Constant i64 [1] [I64 (out_axes ! nat k)]]])"
      by (auto simp: align_scan_output_def Let_def st result_bind_Inr vector_index_Inr)
    have nk: "nat (k + 1) = Suc (nat k)" using k by simp
    from inv have old: "fst t = fst b2" "length (snd t) = length (snd b2)"
      and each: "\<forall>i<length (snd b2). snd t ! i =
       (if niv \<le> i \<and> i < niv + nat k
        then Op Unsqueeze_v0 [snd b2 ! i, Constant i64 [1] [I64 (out_axes ! (i - niv))]]
        else snd b2 ! i)"
      by (simp_all add: I_def)
    have "\<forall>i<length (snd b2). snd t' ! i =
       (if niv \<le> i \<and> i < niv + nat (k + 1)
        then Op Unsqueeze_v0 [snd b2 ! i, Constant i64 [1] [I64 (out_axes ! (i - niv))]]
        else snd b2 ! i)"
      using each a old by (auto simp: t' nk nth_list_update)
    with old a show "I (k + 1) t'"
      by (simp add: I_def t' nk)
  qed
  then show ?thesis by (auto simp: I_def)
qed

text \<open>The three loops that set up the iterator add one description for each index.\<close>

lemma slice_scan_inputs:
  assumes loop: "for_loop 0 nsi
      (slice_scan_input shp na node_inputs bi niv axes dirs off desc) ti0 = Inr ti1"
    and ranges: "int niv + nsi < 2 ^ 63" "0 \<le> off" "off < 2 ^ 63"
  shows "ti_results ti1 = ti_results ti0 \<and> ti_parameters ti1 = ti_parameters ti0 \<and>
    ti_output_descriptions ti1 = ti_output_descriptions ti0 \<and>
    (\<exists>vs ds normalized. ti_inputs ti1 = ti_inputs ti0 @ vs \<and>
       ti_input_descriptions ti1 = ti_input_descriptions ti0 @ ds \<and>
       length vs = nat nsi \<and> length ds = nat nsi \<and> length normalized = nat nsi \<and>
       (\<forall>j<nat nsi.
          niv + j + nat off < length node_inputs \<and> niv + j < length bi \<and>
          j < length axes \<and> j < length dirs \<and>
          vs ! j = node_inputs ! (niv + j + nat off) \<and>
          na desc (axes ! j)
            (rank (get_partial_shape shp (node_inputs ! (niv + j + nat off)))) =
            Inr (normalized ! j) \<and>
          ds ! j =
            (if dirs ! j \<noteq> 0
             then SliceInput (bi ! (niv + j)) (- 1) (- 1) 1 0 (normalized ! j)
             else SliceInput (bi ! (niv + j)) 0 1 1 (- 1) (normalized ! j))))"
proof -
  define I where "I = (\<lambda>k (ti::tensor_iterator).
    ti_results ti = ti_results ti0 \<and> ti_parameters ti = ti_parameters ti0 \<and>
    ti_output_descriptions ti = ti_output_descriptions ti0 \<and>
    (\<exists>vs ds normalized. ti_inputs ti = ti_inputs ti0 @ vs \<and>
       ti_input_descriptions ti = ti_input_descriptions ti0 @ ds \<and>
       length vs = nat k \<and> length ds = nat k \<and> length normalized = nat k \<and>
       (\<forall>j<nat k.
          niv + j + nat off < length node_inputs \<and> niv + j < length bi \<and>
          j < length axes \<and> j < length dirs \<and>
          vs ! j = node_inputs ! (niv + j + nat off) \<and>
          na desc (axes ! j)
            (rank (get_partial_shape shp (node_inputs ! (niv + j + nat off)))) =
            Inr (normalized ! j) \<and>
          ds ! j =
            (if dirs ! j \<noteq> 0
             then SliceInput (bi ! (niv + j)) (- 1) (- 1) 1 0 (normalized ! j)
             else SliceInput (bi ! (niv + j)) 0 1 1 (- 1) (normalized ! j)))))"
  have "I (max 0 nsi) ti1"
  proof (rule for_loop_invariant [OF loop])
    show "I 0 ti0" by (simp add: I_def)
  next
    fix k t t'
    assume k: "0 \<le> k" "k < nsi" and inv: "I k t"
      and body: "slice_scan_input shp na node_inputs bi niv axes dirs off desc k t = Inr t'"
    from k ranges have st: "size_t k = nat k" "size_t (int niv + k) = niv + nat k"
      "size_t (int niv + k + off) = niv + nat k + nat off"
      by (simp_all add: size_t_id nat_add_distrib)
    from body k obtain axis where
      a: "nat k < length axes" "niv + nat k + nat off < length node_inputs"
        "na desc (axes ! nat k)
           (rank (get_partial_shape shp (node_inputs ! (niv + nat k + nat off)))) = Inr axis"
        "nat k < length dirs" "niv + nat k < length bi"
      and t': "t' = (if dirs ! nat k \<noteq> 0
          then set_sliced_input (bi ! (niv + nat k)) (node_inputs ! (niv + nat k + nat off))
            (- 1) (- 1) 1 0 axis t
          else set_sliced_input (bi ! (niv + nat k)) (node_inputs ! (niv + nat k + nat off))
            0 1 1 (- 1) axis t)"
      by (auto simp: slice_scan_input_def Let_def st result_bind_Inr vector_index_Inr
          split: if_splits)
    from inv obtain vs ds normalized where
      old: "ti_results t = ti_results ti0" "ti_parameters t = ti_parameters ti0"
        "ti_output_descriptions t = ti_output_descriptions ti0"
        "ti_inputs t = ti_inputs ti0 @ vs"
        "ti_input_descriptions t = ti_input_descriptions ti0 @ ds"
      and lens: "length vs = nat k" "length ds = nat k" "length normalized = nat k"
      and each: "\<forall>j<nat k.
          niv + j + nat off < length node_inputs \<and> niv + j < length bi \<and>
          j < length axes \<and> j < length dirs \<and>
          vs ! j = node_inputs ! (niv + j + nat off) \<and>
          na desc (axes ! j)
            (rank (get_partial_shape shp (node_inputs ! (niv + j + nat off)))) =
            Inr (normalized ! j) \<and>
          ds ! j =
            (if dirs ! j \<noteq> 0
             then SliceInput (bi ! (niv + j)) (- 1) (- 1) 1 0 (normalized ! j)
             else SliceInput (bi ! (niv + j)) 0 1 1 (- 1) (normalized ! j))"
      unfolding I_def by blast
    define v where "v = node_inputs ! (niv + nat k + nat off)"
    define d :: "out input_description" where "d = (if dirs ! nat k \<noteq> 0
        then SliceInput (bi ! (niv + nat k)) (- 1) (- 1) 1 0 axis
        else SliceInput (bi ! (niv + nat k)) 0 1 1 (- 1) axis)"
    have new: "ti_results t' = ti_results ti0" "ti_parameters t' = ti_parameters ti0"
        "ti_output_descriptions t' = ti_output_descriptions ti0"
        "ti_inputs t' = ti_inputs ti0 @ (vs @ [v])"
        "ti_input_descriptions t' = ti_input_descriptions ti0 @ (ds @ [d])"
      using old t' by (simp_all add: set_sliced_input_def v_def d_def)
    have nk: "nat (k + 1) = Suc (nat k)" using k by simp
    have each': "\<forall>j<nat (k + 1).
          niv + j + nat off < length node_inputs \<and> niv + j < length bi \<and>
          j < length axes \<and> j < length dirs \<and>
          (vs @ [v]) ! j = node_inputs ! (niv + j + nat off) \<and>
          na desc (axes ! j)
            (rank (get_partial_shape shp (node_inputs ! (niv + j + nat off)))) =
            Inr ((normalized @ [axis]) ! j) \<and>
          (ds @ [d]) ! j =
            (if dirs ! j \<noteq> 0
             then SliceInput (bi ! (niv + j)) (- 1) (- 1) 1 0 ((normalized @ [axis]) ! j)
             else SliceInput (bi ! (niv + j)) 0 1 1 (- 1) ((normalized @ [axis]) ! j))"
      using each a lens by (auto simp: nk less_Suc_eq nth_append v_def d_def)
    show "I (k + 1) t'"
      unfolding I_def using new each' lens nk
      by (intro conjI exI [of _ "vs @ [v]"] exI [of _ "ds @ [d]"]
          exI [of _ "normalized @ [axis]"]) simp_all
  qed
  moreover have "nat (max 0 nsi) = nat nsi" by simp
  ultimately show ?thesis unfolding I_def by simp
qed

lemma merge_initial_values:
  assumes loop: "for_loop 0 (int niv) (merge_initial_value node_inputs bi bo off) (ti1, []) =
      Inr s2"
    and ranges: "int niv < 2 ^ 63" "0 \<le> off" "off < 2 ^ 63"
    and start: "ti_output_descriptions ti1 = []"
  shows "ti_results (fst s2) = ti_results ti1 \<and> ti_parameters (fst s2) = ti_parameters ti1 \<and>
    snd s2 = [0..<niv] \<and>
    (\<exists>vs ds. ti_inputs (fst s2) = ti_inputs ti1 @ vs \<and>
       ti_input_descriptions (fst s2) = ti_input_descriptions ti1 @ ds \<and>
       length vs = niv \<and> length ds = niv \<and>
       length (ti_output_descriptions (fst s2)) = niv \<and>
       (\<forall>i<niv.
          i < length bi \<and> i + nat off < length node_inputs \<and> i < length bo \<and>
          vs ! i = node_inputs ! (i + nat off) \<and>
          ds ! i = MergedInput (bi ! i) (bo ! i) \<and>
          ti_output_descriptions (fst s2) ! i = BodyOutput (bo ! i) (- 1)))"
proof -
  define I where "I = (\<lambda>k (s::tensor_iterator \<times> nat list).
    ti_results (fst s) = ti_results ti1 \<and> ti_parameters (fst s) = ti_parameters ti1 \<and>
    snd s = [0..<nat k] \<and>
    (\<exists>vs ds. ti_inputs (fst s) = ti_inputs ti1 @ vs \<and>
       ti_input_descriptions (fst s) = ti_input_descriptions ti1 @ ds \<and>
       length vs = nat k \<and> length ds = nat k \<and>
       length (ti_output_descriptions (fst s)) = nat k \<and>
       (\<forall>i<nat k.
          i < length bi \<and> i + nat off < length node_inputs \<and> i < length bo \<and>
          vs ! i = node_inputs ! (i + nat off) \<and>
          ds ! i = MergedInput (bi ! i) (bo ! i) \<and>
          ti_output_descriptions (fst s) ! i = BodyOutput (bo ! i) (- 1))))"
  have "I (max 0 (int niv)) s2"
  proof (rule for_loop_invariant [OF loop])
    show "I 0 (ti1, [])" by (simp add: I_def start)
  next
    fix k t t'
    assume k: "0 \<le> k" "k < int niv" and inv: "I k t"
      and body: "merge_initial_value node_inputs bi bo off k t = Inr t'"
    from k ranges have st: "size_t k = nat k" "size_t (k + off) = nat k + nat off"
      by (simp_all add: size_t_id nat_add_distrib)
    from body k have
      a: "nat k < length bi" "nat k + nat off < length node_inputs" "nat k < length bo"
      and t': "t' =
        (snd (get_iter_value (bo ! nat k) (- 1)
           (set_merged_input (bi ! nat k) (node_inputs ! (nat k + nat off)) (bo ! nat k)
              (fst t))),
         snd t @ [fst (get_iter_value (bo ! nat k) (- 1)
           (set_merged_input (bi ! nat k) (node_inputs ! (nat k + nat off)) (bo ! nat k)
              (fst t)))])"
      by (auto simp: merge_initial_value_def Let_def st result_bind_Inr vector_index_Inr)
    from inv obtain vs ds where
      old: "ti_results (fst t) = ti_results ti1" "ti_parameters (fst t) = ti_parameters ti1"
        "snd t = [0..<nat k]"
        "ti_inputs (fst t) = ti_inputs ti1 @ vs"
        "ti_input_descriptions (fst t) = ti_input_descriptions ti1 @ ds"
      and lens: "length vs = nat k" "length ds = nat k"
        "length (ti_output_descriptions (fst t)) = nat k"
      and each: "\<forall>i<nat k.
          i < length bi \<and> i + nat off < length node_inputs \<and> i < length bo \<and>
          vs ! i = node_inputs ! (i + nat off) \<and>
          ds ! i = MergedInput (bi ! i) (bo ! i) \<and>
          ti_output_descriptions (fst t) ! i = BodyOutput (bo ! i) (- 1)"
      unfolding I_def by blast
    have nk: "nat (k + 1) = Suc (nat k)" using k by simp
    have new: "ti_results (fst t') = ti_results ti1" "ti_parameters (fst t') = ti_parameters ti1"
        "snd t' = [0..<nat (k + 1)]"
        "ti_inputs (fst t') = ti_inputs ti1 @ (vs @ [node_inputs ! (nat k + nat off)])"
        "ti_input_descriptions (fst t') =
           ti_input_descriptions ti1 @ (ds @ [MergedInput (bi ! nat k) (bo ! nat k)])"
        "ti_output_descriptions (fst t') =
           ti_output_descriptions (fst t) @ [BodyOutput (bo ! nat k) (- 1)]"
      using old lens t' nk by (simp_all add: set_merged_input_def get_iter_value_def)
    have each': "\<forall>i<nat (k + 1).
          i < length bi \<and> i + nat off < length node_inputs \<and> i < length bo \<and>
          (vs @ [node_inputs ! (nat k + nat off)]) ! i = node_inputs ! (i + nat off) \<and>
          (ds @ [MergedInput (bi ! nat k) (bo ! nat k)]) ! i = MergedInput (bi ! i) (bo ! i) \<and>
          (ti_output_descriptions (fst t) @ [BodyOutput (bo ! nat k) (- 1)]) ! i =
            BodyOutput (bo ! i) (- 1)"
      using each a lens by (auto simp: nk less_Suc_eq nth_append)
    show "I (k + 1) t'"
      unfolding I_def new
      using each' lens nk
      by (intro conjI refl exI [of _ "vs @ [node_inputs ! (nat k + nat off)]"]
          exI [of _ "ds @ [MergedInput (bi ! nat k) (bo ! nat k)]"]) simp_all
  qed
  then show ?thesis unfolding I_def by simp
qed

lemma concatenate_scan_outputs:
  assumes loop: "for_loop 0 (int nso)
      (concatenate_scan_output shp na bo niv out_axes out_dirs desc) s2 = Inr s3"
    and ranges: "int niv + int nso < 2 ^ 63"
  shows "ti_results (fst s3) = ti_results (fst s2) \<and>
    ti_parameters (fst s3) = ti_parameters (fst s2) \<and>
    ti_inputs (fst s3) = ti_inputs (fst s2) \<and>
    ti_input_descriptions (fst s3) = ti_input_descriptions (fst s2) \<and>
    snd s3 = snd s2 @ map (\<lambda>j. length (ti_output_descriptions (fst s2)) + j) [0..<nso] \<and>
    (\<exists>ds normalized.
       ti_output_descriptions (fst s3) = ti_output_descriptions (fst s2) @ ds \<and>
       length ds = nso \<and> length normalized = nso \<and>
       (\<forall>j<nso.
          j < length out_axes \<and> niv + j < length bo \<and> j < length out_dirs \<and>
          na desc (out_axes ! j) (rank (get_partial_shape shp (bo ! (niv + j)))) =
            Inr (normalized ! j) \<and>
          ds ! j =
            (if out_dirs ! j \<noteq> 0
             then ConcatOutput (bo ! (niv + j)) (- 1) (- 1) 1 0 (normalized ! j)
             else ConcatOutput (bo ! (niv + j)) 0 1 1 (- 1) (normalized ! j))))"
proof -
  define I where "I = (\<lambda>k (s::tensor_iterator \<times> nat list).
    ti_results (fst s) = ti_results (fst s2) \<and>
    ti_parameters (fst s) = ti_parameters (fst s2) \<and>
    ti_inputs (fst s) = ti_inputs (fst s2) \<and>
    ti_input_descriptions (fst s) = ti_input_descriptions (fst s2) \<and>
    snd s = snd s2 @ map (\<lambda>j. length (ti_output_descriptions (fst s2)) + j) [0..<nat k] \<and>
    (\<exists>ds normalized.
       ti_output_descriptions (fst s) = ti_output_descriptions (fst s2) @ ds \<and>
       length ds = nat k \<and> length normalized = nat k \<and>
       (\<forall>j<nat k.
          j < length out_axes \<and> niv + j < length bo \<and> j < length out_dirs \<and>
          na desc (out_axes ! j) (rank (get_partial_shape shp (bo ! (niv + j)))) =
            Inr (normalized ! j) \<and>
          ds ! j =
            (if out_dirs ! j \<noteq> 0
             then ConcatOutput (bo ! (niv + j)) (- 1) (- 1) 1 0 (normalized ! j)
             else ConcatOutput (bo ! (niv + j)) 0 1 1 (- 1) (normalized ! j)))))"
  have "I (max 0 (int nso)) s3"
  proof (rule for_loop_invariant [OF loop])
    show "I 0 s2" by (simp add: I_def)
  next
    fix k t t'
    assume k: "0 \<le> k" "k < int nso" and inv: "I k t"
      and body: "concatenate_scan_output shp na bo niv out_axes out_dirs desc k t = Inr t'"
    from k ranges have st: "size_t k = nat k" "size_t (int niv + k) = niv + nat k"
      by (simp_all add: size_t_id nat_add_distrib)
    from inv obtain ds normalized where
      old: "ti_results (fst t) = ti_results (fst s2)"
        "ti_parameters (fst t) = ti_parameters (fst s2)"
        "ti_inputs (fst t) = ti_inputs (fst s2)"
        "ti_input_descriptions (fst t) = ti_input_descriptions (fst s2)"
        "snd t = snd s2 @ map (\<lambda>j. length (ti_output_descriptions (fst s2)) + j) [0..<nat k]"
        "ti_output_descriptions (fst t) = ti_output_descriptions (fst s2) @ ds"
      and lens: "length ds = nat k" "length normalized = nat k"
      and each: "\<forall>j<nat k.
          j < length out_axes \<and> niv + j < length bo \<and> j < length out_dirs \<and>
          na desc (out_axes ! j) (rank (get_partial_shape shp (bo ! (niv + j)))) =
            Inr (normalized ! j) \<and>
          ds ! j =
            (if out_dirs ! j \<noteq> 0
             then ConcatOutput (bo ! (niv + j)) (- 1) (- 1) 1 0 (normalized ! j)
             else ConcatOutput (bo ! (niv + j)) 0 1 1 (- 1) (normalized ! j))"
      unfolding I_def by blast
    from body k obtain axis where
      a: "nat k < length out_axes" "niv + nat k < length bo" "nat k < length out_dirs"
        "na desc (out_axes ! nat k) (rank (get_partial_shape shp (bo ! (niv + nat k)))) =
           Inr axis"
      and t': "t' =
        (fst t\<lparr>ti_output_descriptions := ti_output_descriptions (fst t) @
           [if out_dirs ! nat k \<noteq> 0
            then ConcatOutput (bo ! (niv + nat k)) (- 1) (- 1) 1 0 axis
            else ConcatOutput (bo ! (niv + nat k)) 0 1 1 (- 1) axis]\<rparr>,
         snd t @ [length (ti_output_descriptions (fst t))])"
      by (auto simp: concatenate_scan_output_def Let_def st result_bind_Inr vector_index_Inr
          get_concatenated_slices_def split: if_splits)
    define d :: "out output_description" where "d =
      (if out_dirs ! nat k \<noteq> 0
       then ConcatOutput (bo ! (niv + nat k)) (- 1) (- 1) 1 0 axis
       else ConcatOutput (bo ! (niv + nat k)) 0 1 1 (- 1) axis)"
    have nk: "nat (k + 1) = Suc (nat k)" using k by simp
    have new: "ti_results (fst t') = ti_results (fst s2)"
        "ti_parameters (fst t') = ti_parameters (fst s2)"
        "ti_inputs (fst t') = ti_inputs (fst s2)"
        "ti_input_descriptions (fst t') = ti_input_descriptions (fst s2)"
        "snd t' = snd s2 @
           map (\<lambda>j. length (ti_output_descriptions (fst s2)) + j) [0..<nat (k + 1)]"
        "ti_output_descriptions (fst t') = ti_output_descriptions (fst s2) @ (ds @ [d])"
      using old lens t' nk by (simp_all add: d_def)
    have each': "\<forall>j<nat (k + 1).
          j < length out_axes \<and> niv + j < length bo \<and> j < length out_dirs \<and>
          na desc (out_axes ! j) (rank (get_partial_shape shp (bo ! (niv + j)))) =
            Inr ((normalized @ [axis]) ! j) \<and>
          (ds @ [d]) ! j =
            (if out_dirs ! j \<noteq> 0
             then ConcatOutput (bo ! (niv + j)) (- 1) (- 1) 1 0 ((normalized @ [axis]) ! j)
             else ConcatOutput (bo ! (niv + j)) 0 1 1 (- 1) ((normalized @ [axis]) ! j))"
      using each a lens by (auto simp: nk less_Suc_eq nth_append d_def)
    show "I (k + 1) t'"
      unfolding I_def new
      using each' lens nk
      by (intro conjI refl exI [of _ "ds @ [d]"] exI [of _ "normalized @ [axis]"]) simp_all
  qed
  then show ?thesis unfolding I_def by simp
qed

text \<open>A call in which the first loop stays within the parameter vector has a
  \<^verbatim>\<open>num_scan_inputs\<close> between 0 and the number of parameters.\<close>

lemma num_initial_values:
  assumes "size_t (int P - nsi) \<le> P" and "P < 2 ^ 63" and "- (2 ^ 63) \<le> nsi" and "nsi < 2 ^ 63"
  shows "0 \<le> nsi \<and> nsi \<le> int P \<and> size_t (int P - nsi) = P - nat nsi"
proof -
  have nonneg: "0 \<le> nsi"
  proof (rule ccontr)
    assume "\<not> 0 \<le> nsi"
    with assms(2,3) have "0 \<le> int P - nsi" "int P - nsi < 2 ^ 64" by simp_all
    then have "size_t (int P - nsi) = nat (int P - nsi)" by (rule size_t_id)
    with \<open>\<not> 0 \<le> nsi\<close> assms(1) show False by simp
  qed
  have le: "nsi \<le> int P"
  proof (rule ccontr)
    assume gt: "\<not> nsi \<le> int P"
    with assms(4) have "(int P - nsi) mod 2 ^ 64 = int P - nsi + 2 ^ 64"
      by (intro mod_pos_pos_trivial [THEN trans [OF mod_add_self2 [symmetric]]]) simp_all
    then have "size_t (int P - nsi) = nat (int P - nsi + 2 ^ 64)" by (simp add: size_t_def)
    with gt assms(1,2,4) show False by simp
  qed
  from nonneg le have "size_t (int P - nsi) = nat (int P - nsi)"
    using assms(2) by (intro size_t_id) simp_all
  with nonneg le show ?thesis by (simp add: nat_diff_distrib)
qed

section \<open>Scan: the outputs\<close>

lemma scan_to_tensor_iterator_returns:
  assumes run: "scan_to_tensor_iterator shp elt na node_inputs body_inputs body_outputs nsi
      in_axes in_dirs out_axes out_dirs off desc = Inr outs"
    and ranges: "length body_inputs < 2 ^ 63" "length body_outputs < 2 ^ 63"
      "- (2 ^ 63) \<le> nsi" "nsi < 2 ^ 63" "0 \<le> off" "off < 2 ^ 63"
  shows "0 \<le> nsi \<and> nat nsi \<le> length body_inputs \<and>
    length body_inputs - nat nsi \<le> length body_outputs \<and>
    (\<exists>xs results params ins descs in_normalized out_normalized.
       outs = map (TensorIterator xs results params ins descs) [0..<length body_outputs] \<and>
       length results = length body_outputs \<and> length params = length body_inputs \<and>
       length xs = length body_inputs \<and> length ins = length body_inputs \<and>
       length descs = length body_outputs \<and>
       (\<forall>i<length body_inputs - nat nsi.
          xs ! (nat nsi + i) = node_inputs ! (i + nat off) \<and>
          ins ! (nat nsi + i) = MergedInput (params ! i) (results ! i) \<and>
          descs ! i = BodyOutput (results ! i) (- 1)) \<and>
       (\<forall>j<nat nsi.
          xs ! j = node_inputs ! (length body_inputs - nat nsi + j + nat off) \<and>
          na desc (in_axes ! j)
            (rank (get_partial_shape shp
               (node_inputs ! (length body_inputs - nat nsi + j + nat off)))) =
            Inr (in_normalized ! j) \<and>
          ins ! j =
            (if in_dirs ! j \<noteq> 0
             then SliceInput (params ! (length body_inputs - nat nsi + j)) (- 1) (- 1) 1 0
               (in_normalized ! j)
             else SliceInput (params ! (length body_inputs - nat nsi + j)) 0 1 1 (- 1)
               (in_normalized ! j))) \<and>
       (\<forall>j<length body_outputs - (length body_inputs - nat nsi).
          (\<exists>x. results ! (length body_inputs - nat nsi + j) =
             Op Unsqueeze_v0 [x, Constant i64 [1] [I64 (out_axes ! j)]]) \<and>
          na desc (out_axes ! j)
            (rank (get_partial_shape shp (results ! (length body_inputs - nat nsi + j)))) =
            Inr (out_normalized ! j) \<and>
          descs ! (length body_inputs - nat nsi + j) =
            (if out_dirs ! j \<noteq> 0
             then ConcatOutput (results ! (length body_inputs - nat nsi + j)) (- 1) (- 1) 1 0
               (out_normalized ! j)
             else ConcatOutput (results ! (length body_inputs - nat nsi + j)) 0 1 1 (- 1)
               (out_normalized ! j))))"
proof -
  define P where "P = length body_inputs"
  define Q where "Q = length body_outputs"
  define niv where "niv = size_t (int P - nsi)"
  define nso where "nso = size_t (int Q - int niv)"
  from run obtain b1 b2 b3 ti1 s2 s3 where
    l1: "for_loop 0 (int niv) (align_initial_value shp elt node_inputs off)
        (body_inputs, body_outputs) = Inr b1"
    and l2: "for_loop 0 nsi (align_scan_input shp na node_inputs niv in_axes off desc) b1 =
        Inr b2"
    and l3: "for_loop 0 (int nso) (align_scan_output niv out_axes) b2 = Inr b3"
    and l4: "for_loop 0 nsi
        (slice_scan_input shp na node_inputs (fst b3) niv in_axes in_dirs off desc)
        (set_function (snd b3) (fst b3) new_tensor_iterator) = Inr ti1"
    and l5: "for_loop 0 (int niv) (merge_initial_value node_inputs (fst b3) (snd b3) off)
        (ti1, []) = Inr s2"
    and l6: "for_loop 0 (int nso)
        (concatenate_scan_output shp na (snd b3) niv out_axes out_dirs desc) s2 = Inr s3"
    and outs: "outs = map (ti_output (fst s3)) (snd s3)"
    unfolding scan_to_tensor_iterator_def Let_def niv_def nso_def P_def Q_def
    by (auto simp: result_bind_Inr)
  from align_initial_values [OF l1 size_t_less [of "int P - nsi", folded niv_def]]
  have b1: "length (fst b1) = P" "length (snd b1) = Q" "niv \<le> P"
    by (simp_all add: P_def Q_def)
  from num_initial_values [of P nsi] b1(3) ranges
  have nsi: "0 \<le> nsi" "nsi \<le> int P" and niv: "niv = P - nat nsi"
    by (simp_all add: niv_def P_def)
  from nsi niv have sum: "niv + nat nsi = P" by simp
  from align_scan_inputs [OF l2] sum ranges(1) nsi
  have b2: "length (fst b2) = P" "length (snd b2) = Q"
    by (simp_all add: b1 P_def)
  from align_scan_outputs_length [OF l3]
  have b3: "fst b3 = fst b2" "length (snd b3) = Q" by (simp_all add: b2)
  have ti0: "ti_output_descriptions (set_function (snd b3) (fst b3) new_tensor_iterator) = []"
    "ti_inputs (set_function (snd b3) (fst b3) new_tensor_iterator) = []"
    "ti_input_descriptions (set_function (snd b3) (fst b3) new_tensor_iterator) = []"
    "ti_results (set_function (snd b3) (fst b3) new_tensor_iterator) = snd b3"
    "ti_parameters (set_function (snd b3) (fst b3) new_tensor_iterator) = fst b3"
    by (simp_all add: set_function_def new_tensor_iterator_def)
  have r4: "int niv + nsi < 2 ^ 63" using sum ranges(1) nsi by (simp add: P_def)
  from slice_scan_inputs [OF l4 r4 ranges(5,6)] obtain vs4 ds4 in_normalized where
    t1: "ti_results ti1 = snd b3" "ti_parameters ti1 = fst b3"
      "ti_output_descriptions ti1 = []" "ti_inputs ti1 = vs4" "ti_input_descriptions ti1 = ds4"
      "length vs4 = nat nsi" "length ds4 = nat nsi"
    and e4: "\<forall>j<nat nsi.
          niv + j + nat off < length node_inputs \<and> niv + j < length (fst b3) \<and>
          j < length in_axes \<and> j < length in_dirs \<and>
          vs4 ! j = node_inputs ! (niv + j + nat off) \<and>
          na desc (in_axes ! j)
            (rank (get_partial_shape shp (node_inputs ! (niv + j + nat off)))) =
            Inr (in_normalized ! j) \<and>
          ds4 ! j =
            (if in_dirs ! j \<noteq> 0
             then SliceInput (fst b3 ! (niv + j)) (- 1) (- 1) 1 0 (in_normalized ! j)
             else SliceInput (fst b3 ! (niv + j)) 0 1 1 (- 1) (in_normalized ! j))"
    unfolding ti0 by auto
  have r5: "int niv < 2 ^ 63" using b1(3) ranges(1) by (simp add: P_def)
  from merge_initial_values [OF l5 r5 ranges(5,6) t1(3)] obtain vs5 ds5 where
    t2: "ti_results (fst s2) = snd b3" "ti_parameters (fst s2) = fst b3" "snd s2 = [0..<niv]"
      "ti_inputs (fst s2) = vs4 @ vs5" "ti_input_descriptions (fst s2) = ds4 @ ds5"
      "length vs5 = niv" "length ds5 = niv" "length (ti_output_descriptions (fst s2)) = niv"
    and e5: "\<forall>i<niv.
          i < length (fst b3) \<and> i + nat off < length node_inputs \<and> i < length (snd b3) \<and>
          vs5 ! i = node_inputs ! (i + nat off) \<and>
          ds5 ! i = MergedInput (fst b3 ! i) (snd b3 ! i) \<and>
          ti_output_descriptions (fst s2) ! i = BodyOutput (snd b3 ! i) (- 1)"
    unfolding t1 by auto
  have niv_le: "niv \<le> Q"
  proof (cases niv)
    case 0
    then show ?thesis by simp
  next
    case (Suc m)
    with e5 have "m < length (snd b3)" by simp
    with Suc show ?thesis by (simp add: b3)
  qed
  have nso: "nso = Q - niv"
    using niv_le ranges(2) unfolding nso_def
    by (subst size_t_id) (simp_all add: Q_def nat_diff_distrib)
  have r3: "int niv + int nso < 2 ^ 63" using nso niv_le ranges(2) by (simp add: Q_def)
  then have r3': "int niv + int nso < 2 ^ 64" by simp
  from align_scan_outputs [OF l3 r3'] have
    e3: "\<forall>i<Q. snd b3 ! i =
       (if niv \<le> i \<and> i < niv + nso
        then Op Unsqueeze_v0 [snd b2 ! i, Constant i64 [1] [I64 (out_axes ! (i - niv))]]
        else snd b2 ! i)"
    by (simp add: b2)
  from concatenate_scan_outputs [OF l6 r3] obtain ds6 out_normalized where
    t3: "ti_results (fst s3) = snd b3" "ti_parameters (fst s3) = fst b3"
      "ti_inputs (fst s3) = vs4 @ vs5" "ti_input_descriptions (fst s3) = ds4 @ ds5"
      "snd s3 = [0..<niv] @ map (\<lambda>j. niv + j) [0..<nso]"
      "ti_output_descriptions (fst s3) = ti_output_descriptions (fst s2) @ ds6"
      "length ds6 = nso"
    and e6: "\<forall>j<nso.
          j < length out_axes \<and> niv + j < length (snd b3) \<and> j < length out_dirs \<and>
          na desc (out_axes ! j) (rank (get_partial_shape shp (snd b3 ! (niv + j)))) =
            Inr (out_normalized ! j) \<and>
          ds6 ! j =
            (if out_dirs ! j \<noteq> 0
             then ConcatOutput (snd b3 ! (niv + j)) (- 1) (- 1) 1 0 (out_normalized ! j)
             else ConcatOutput (snd b3 ! (niv + j)) 0 1 1 (- 1) (out_normalized ! j))"
    unfolding t2 by auto
  define xs where "xs = vs4 @ vs5"
  define ins where "ins = ds4 @ ds5"
  define descs where "descs = ti_output_descriptions (fst s2) @ ds6"
  have total: "niv + nso = Q" using nso niv_le by simp
  have outs': "outs = map (TensorIterator xs (snd b3) (fst b3) ins descs) [0..<Q]"
    unfolding outs t3(5) upt_append_shifted total
    by (simp add: ti_output_def t3 xs_def ins_def descs_def)
  have merged: "\<forall>i<niv.
          xs ! (nat nsi + i) = node_inputs ! (i + nat off) \<and>
          ins ! (nat nsi + i) = MergedInput (fst b3 ! i) (snd b3 ! i) \<and>
          descs ! i = BodyOutput (snd b3 ! i) (- 1)"
    using e5 t1(6,7) t2(8) by (simp add: xs_def ins_def descs_def nth_append)
  have sliced: "\<forall>j<nat nsi.
          xs ! j = node_inputs ! (niv + j + nat off) \<and>
          na desc (in_axes ! j)
            (rank (get_partial_shape shp (node_inputs ! (niv + j + nat off)))) =
            Inr (in_normalized ! j) \<and>
          ins ! j =
            (if in_dirs ! j \<noteq> 0
             then SliceInput (fst b3 ! (niv + j)) (- 1) (- 1) 1 0 (in_normalized ! j)
             else SliceInput (fst b3 ! (niv + j)) 0 1 1 (- 1) (in_normalized ! j))"
    using e4 t1(6,7) by (simp add: xs_def ins_def nth_append)
  have concatenated: "\<forall>j<nso.
          (\<exists>x. snd b3 ! (niv + j) =
             Op Unsqueeze_v0 [x, Constant i64 [1] [I64 (out_axes ! j)]]) \<and>
          na desc (out_axes ! j) (rank (get_partial_shape shp (snd b3 ! (niv + j)))) =
            Inr (out_normalized ! j) \<and>
          descs ! (niv + j) =
            (if out_dirs ! j \<noteq> 0
             then ConcatOutput (snd b3 ! (niv + j)) (- 1) (- 1) 1 0 (out_normalized ! j)
             else ConcatOutput (snd b3 ! (niv + j)) 0 1 1 (- 1) (out_normalized ! j))"
  proof (intro allI impI)
    fix j assume j: "j < nso"
    with total have "niv + j < Q" by simp
    with e3 j have "snd b3 ! (niv + j) =
        Op Unsqueeze_v0 [snd b2 ! (niv + j), Constant i64 [1] [I64 (out_axes ! j)]]"
      by simp
    moreover from e6 j t2(8) have
      "na desc (out_axes ! j) (rank (get_partial_shape shp (snd b3 ! (niv + j)))) =
         Inr (out_normalized ! j)"
      "descs ! (niv + j) =
         (if out_dirs ! j \<noteq> 0
          then ConcatOutput (snd b3 ! (niv + j)) (- 1) (- 1) 1 0 (out_normalized ! j)
          else ConcatOutput (snd b3 ! (niv + j)) 0 1 1 (- 1) (out_normalized ! j))"
      by (simp_all add: descs_def nth_append)
    ultimately show "(\<exists>x. snd b3 ! (niv + j) =
             Op Unsqueeze_v0 [x, Constant i64 [1] [I64 (out_axes ! j)]]) \<and>
          na desc (out_axes ! j) (rank (get_partial_shape shp (snd b3 ! (niv + j)))) =
            Inr (out_normalized ! j) \<and>
          descs ! (niv + j) =
            (if out_dirs ! j \<noteq> 0
             then ConcatOutput (snd b3 ! (niv + j)) (- 1) (- 1) 1 0 (out_normalized ! j)
             else ConcatOutput (snd b3 ! (niv + j)) 0 1 1 (- 1) (out_normalized ! j))"
      by blast
  qed
  have lens: "length (snd b3) = Q" "length (fst b3) = P" "length xs = P" "length ins = P"
    "length descs = Q"
    using b3 b2 t1(6,7) t2(6,7,8) t3(7) sum total by (simp_all add: xs_def ins_def descs_def)
  have ex: "\<exists>xs results params ins descs in_normalized out_normalized.
       outs = map (TensorIterator xs results params ins descs) [0..<Q] \<and>
       length results = Q \<and> length params = P \<and>
       length xs = P \<and> length ins = P \<and> length descs = Q \<and>
       (\<forall>i<niv.
          xs ! (nat nsi + i) = node_inputs ! (i + nat off) \<and>
          ins ! (nat nsi + i) = MergedInput (params ! i) (results ! i) \<and>
          descs ! i = BodyOutput (results ! i) (- 1)) \<and>
       (\<forall>j<nat nsi.
          xs ! j = node_inputs ! (niv + j + nat off) \<and>
          na desc (in_axes ! j)
            (rank (get_partial_shape shp (node_inputs ! (niv + j + nat off)))) =
            Inr (in_normalized ! j) \<and>
          ins ! j =
            (if in_dirs ! j \<noteq> 0
             then SliceInput (params ! (niv + j)) (- 1) (- 1) 1 0 (in_normalized ! j)
             else SliceInput (params ! (niv + j)) 0 1 1 (- 1) (in_normalized ! j))) \<and>
       (\<forall>j<Q - niv.
          (\<exists>x. results ! (niv + j) =
             Op Unsqueeze_v0 [x, Constant i64 [1] [I64 (out_axes ! j)]]) \<and>
          na desc (out_axes ! j) (rank (get_partial_shape shp (results ! (niv + j)))) =
            Inr (out_normalized ! j) \<and>
          descs ! (niv + j) =
            (if out_dirs ! j \<noteq> 0
             then ConcatOutput (results ! (niv + j)) (- 1) (- 1) 1 0 (out_normalized ! j)
             else ConcatOutput (results ! (niv + j)) 0 1 1 (- 1) (out_normalized ! j)))"
    using outs' lens merged sliced concatenated [unfolded nso] by blast
  have parts: "0 \<le> nsi" "nat nsi \<le> length body_inputs"
    "length body_inputs - nat nsi \<le> length body_outputs"
    using nsi niv niv_le by (simp_all add: P_def Q_def)
  show ?thesis
    using parts ex [unfolded niv P_def Q_def] by (intro conjI) assumption+
qed

lemma import_onnx_scan_returns:
  assumes run: "import_onnx_scan shp elt na n default_axis off directions_name = Inr outs"
    and body: "get_subgraphs n ''body'' = Some body_graph"
    and count: "attributes n ''num_scan_inputs'' = Some (AttrInt nsi)"
    and ranges: "length (get_ng_parameters body_graph) < 2 ^ 63"
      "length (get_ov_outputs body_graph) < 2 ^ 63" "- (2 ^ 63) \<le> nsi" "nsi < 2 ^ 63"
      "0 \<le> off" "off < 2 ^ 63"
  shows "\<exists>in_axes in_dirs out_axes out_dirs.
    0 \<le> nsi \<and> nat nsi \<le> length (get_ng_parameters body_graph) \<and>
    length (get_ng_parameters body_graph) - nat nsi \<le> length (get_ov_outputs body_graph) \<and>
    get_attribute_ints_or n ''scan_input_axes'' (replicate (nat nsi) default_axis) =
      Inr in_axes \<and>
    get_attribute_ints_or n directions_name (replicate (nat nsi) 0) = Inr in_dirs \<and>
    get_attribute_ints_or n ''scan_output_axes''
      (replicate (length (get_ov_outputs body_graph) -
         (length (get_ng_parameters body_graph) - nat nsi)) default_axis) = Inr out_axes \<and>
    get_attribute_ints_or n ''scan_output_directions''
      (replicate (length (get_ov_outputs body_graph) -
         (length (get_ng_parameters body_graph) - nat nsi)) 0) = Inr out_dirs \<and>
    scan_to_tensor_iterator shp elt na (get_ng_inputs n) (get_ng_parameters body_graph)
      (get_ov_outputs body_graph) nsi in_axes in_dirs out_axes out_dirs off
      (get_description n) = Inr outs"
proof -
  define P where "P = length (get_ng_parameters body_graph)"
  define Q where "Q = length (get_ov_outputs body_graph)"
  define niv where "niv = size_t (int P - nsi)"
  define nso where "nso = size_t (int Q - int niv)"
  have b: "map_at (get_subgraphs n) ''body'' = Inr body_graph"
    and c: "get_attribute_int n ''num_scan_inputs'' = Inr nsi"
    using body count by (simp_all add: map_at_def get_attribute_int_def)
  from run obtain in_axes in_dirs out_axes out_dirs where
    a1: "get_attribute_ints_or n ''scan_input_axes'' (replicate (size_t nsi) default_axis) =
      Inr in_axes"
    and a2: "get_attribute_ints_or n directions_name (replicate (size_t nsi) 0) = Inr in_dirs"
    and a3: "get_attribute_ints_or n ''scan_output_axes'' (replicate nso default_axis) =
      Inr out_axes"
    and a4: "get_attribute_ints_or n ''scan_output_directions'' (replicate nso 0) =
      Inr out_dirs"
    and core: "scan_to_tensor_iterator shp elt na (get_ng_inputs n)
      (get_ng_parameters body_graph) (get_ov_outputs body_graph) nsi in_axes in_dirs out_axes
      out_dirs off (get_description n) = Inr outs"
    unfolding import_onnx_scan_def Let_def b c result_bind.simps niv_def nso_def P_def Q_def
    by (auto simp: result_bind_Inr dest!: vector_of_Inr)
  from scan_to_tensor_iterator_returns [OF core ranges]
  have nsi: "0 \<le> nsi" "nat nsi \<le> P" and le: "P - nat nsi \<le> Q"
    by (simp_all add: P_def Q_def)
  have s1: "size_t nsi = nat nsi"
    using nsi(1) ranges(4) by (intro size_t_id) simp_all
  have niv: "niv = P - nat nsi"
    unfolding niv_def using nsi ranges(1)
    by (subst size_t_id) (simp_all add: P_def nat_diff_distrib)
  have nso: "nso = Q - (P - nat nsi)"
    unfolding nso_def niv using le ranges(2)
    by (subst size_t_id) (simp_all add: Q_def nat_diff_distrib)
  show ?thesis
    using nsi le a1 a2 a3 a4 core
    unfolding s1 nso P_def Q_def by blast
qed

lemmas scan_evaluation =
  scan_set_9_def scan_set_1_def import_onnx_scan_def
  map_at_def get_attribute_int_def get_attribute_ints_or_def vector_of_def size_t_def
  scan_to_tensor_iterator_def for_loop.simps Let_def
  align_initial_value_def align_scan_input_def align_scan_output_def slice_scan_input_def
  merge_initial_value_def concatenate_scan_output_def vector_index_def set_parameter_def
  set_dimension_def set_function_def new_tensor_iterator_def
  set_sliced_input_def set_merged_input_def get_iter_value_def get_concatenated_slices_def
  ti_output_def vector_at_def openvino_assert_def

text \<open>C2. Let the translation of a scan node of opset 1 or of opset 9 return, for a body
  with fewer than \<open>2 ^ 63\<close> parameters and outputs and a \<^verbatim>\<open>num_scan_inputs\<close> attribute that
  is an \<^verbatim>\<open>int64_t\<close>. Then \<^verbatim>\<open>num_scan_inputs\<close> lies between 0 and the number of body
  parameters, and with \<open>num_initial_values\<close> the number of body parameters minus
  \<^verbatim>\<open>num_scan_inputs\<close>:
  \<^item> the translation returns as many outputs as the body has, and output \<open>k\<close> is output
    \<open>k\<close> of one and the same TensorIterator;
  \<^item> for \<open>i < num_initial_values\<close>, output \<open>i\<close> is the value of body result \<open>i\<close> after the
    last iteration (iteration \<open>-1\<close>), and body parameter \<open>i\<close> is a merged input: it starts
    from node input \<open>i + in_offset\<close> and is fed back from body result \<open>i\<close>;
  \<^item> for \<open>j < num_scan_outputs\<close>, output \<open>num_initial_values + j\<close> is the concatenation of
    the slices of body result \<open>num_initial_values + j\<close>, which is the body output
    unsqueezed at \<open>scan_output_axes ! j\<close>, along the normalised axis; with start \<open>-1\<close>,
    stride \<open>-1\<close> and end \<open>0\<close> when \<open>scan_output_directions ! j\<close> is not 0 (so when it is
    1), and with start 0, stride 1 and end \<open>-1\<close> when it is 0;
  \<^item> for \<open>j < num_scan_inputs\<close>, node input \<open>num_initial_values + j + in_offset\<close> is sliced
    along its normalised axis into body parameter \<open>num_initial_values + j\<close>, with the
    same start, stride and end for the direction of the input.
  The axes and directions are the attributes of the node, or their defaults.\<close>

theorem scan_outputs:
  assumes run: "scan_set_1 shp elt na n = Inr outs \<and>
        default_axis = 1 \<and> off = 1 \<and> directions_name = ''directions'' \<or>
      scan_set_9 shp elt na n = Inr outs \<and>
        default_axis = 0 \<and> off = 0 \<and> directions_name = ''scan_input_directions''"
    and body: "get_subgraphs n ''body'' = Some body_graph"
    and count: "attributes n ''num_scan_inputs'' = Some (AttrInt num_scan_inputs)"
    and ranges: "length (get_ng_parameters body_graph) < 2 ^ 63"
      "length (get_ov_outputs body_graph) < 2 ^ 63"
      "- (2 ^ 63) \<le> num_scan_inputs" "num_scan_inputs < 2 ^ 63"
  shows
    "let body_inputs = get_ng_parameters body_graph;
         body_outputs = get_ov_outputs body_graph;
         num_initial_values = length body_inputs - nat num_scan_inputs;
         num_scan_outputs = length body_outputs - num_initial_values
     in
     0 \<le> num_scan_inputs \<and> nat num_scan_inputs \<le> length body_inputs \<and>
     num_initial_values \<le> length body_outputs \<and>
     length outs = length body_outputs \<and>
     (\<exists>scan_input_axes scan_input_directions scan_output_axes scan_output_directions
        xs results params ins descs in_normalized out_normalized.
        get_attribute_ints_or n ''scan_input_axes''
          (replicate (nat num_scan_inputs) default_axis) = Inr scan_input_axes \<and>
        get_attribute_ints_or n directions_name
          (replicate (nat num_scan_inputs) 0) = Inr scan_input_directions \<and>
        get_attribute_ints_or n ''scan_output_axes''
          (replicate num_scan_outputs default_axis) = Inr scan_output_axes \<and>
        get_attribute_ints_or n ''scan_output_directions''
          (replicate num_scan_outputs 0) = Inr scan_output_directions \<and>
        outs = map (TensorIterator xs results params ins descs) [0..<length body_outputs] \<and>
        length results = length body_outputs \<and> length params = length body_inputs \<and>
        length xs = length body_inputs \<and> length ins = length body_inputs \<and>
        length descs = length body_outputs \<and>
        (\<forall>i<num_initial_values.
           xs ! (nat num_scan_inputs + i) = get_ng_inputs n ! (i + nat off) \<and>
           ins ! (nat num_scan_inputs + i) = MergedInput (params ! i) (results ! i) \<and>
           descs ! i = BodyOutput (results ! i) (- 1)) \<and>
        (\<forall>j<nat num_scan_inputs.
           xs ! j = get_ng_inputs n ! (num_initial_values + j + nat off) \<and>
           na (get_description n) (scan_input_axes ! j)
             (rank (get_partial_shape shp
                (get_ng_inputs n ! (num_initial_values + j + nat off)))) =
             Inr (in_normalized ! j) \<and>
           ins ! j =
             (if scan_input_directions ! j \<noteq> 0
              then SliceInput (params ! (num_initial_values + j)) (- 1) (- 1) 1 0
                (in_normalized ! j)
              else SliceInput (params ! (num_initial_values + j)) 0 1 1 (- 1)
                (in_normalized ! j))) \<and>
        (\<forall>j<num_scan_outputs.
           (\<exists>x. results ! (num_initial_values + j) =
              Op Unsqueeze_v0 [x, Constant i64 [1] [I64 (scan_output_axes ! j)]]) \<and>
           na (get_description n) (scan_output_axes ! j)
             (rank (get_partial_shape shp (results ! (num_initial_values + j)))) =
             Inr (out_normalized ! j) \<and>
           descs ! (num_initial_values + j) =
             (if scan_output_directions ! j \<noteq> 0
              then ConcatOutput (results ! (num_initial_values + j)) (- 1) (- 1) 1 0
                (out_normalized ! j)
              else ConcatOutput (results ! (num_initial_values + j)) 0 1 1 (- 1)
                (out_normalized ! j))))"
proof -
  from run have imported:
    "import_onnx_scan shp elt na n default_axis off directions_name = Inr outs"
    and off: "0 \<le> off" "off < 2 ^ 63"
    by (auto simp: scan_set_1_def scan_set_9_def result_bind_Inr)
  from import_onnx_scan_returns [OF imported body count ranges off]
  obtain in_axes in_dirs out_axes out_dirs where
    a: "get_attribute_ints_or n ''scan_input_axes''
          (replicate (nat num_scan_inputs) default_axis) = Inr in_axes"
      "get_attribute_ints_or n directions_name
          (replicate (nat num_scan_inputs) 0) = Inr in_dirs"
      "get_attribute_ints_or n ''scan_output_axes''
        (replicate (length (get_ov_outputs body_graph) -
           (length (get_ng_parameters body_graph) - nat num_scan_inputs)) default_axis) =
        Inr out_axes"
      "get_attribute_ints_or n ''scan_output_directions''
        (replicate (length (get_ov_outputs body_graph) -
           (length (get_ng_parameters body_graph) - nat num_scan_inputs)) 0) = Inr out_dirs"
    and core: "scan_to_tensor_iterator shp elt na (get_ng_inputs n)
      (get_ng_parameters body_graph) (get_ov_outputs body_graph) num_scan_inputs in_axes
      in_dirs out_axes out_dirs off (get_description n) = Inr outs"
    by blast
  note r = scan_to_tensor_iterator_returns [OF core ranges off]
  from r have counts: "0 \<le> num_scan_inputs"
    "nat num_scan_inputs \<le> length (get_ng_parameters body_graph)"
    "length (get_ng_parameters body_graph) - nat num_scan_inputs \<le>
       length (get_ov_outputs body_graph)"
    by simp_all
  from r obtain xs results params ins descs in_normalized out_normalized where
    outs: "outs = map (TensorIterator xs results params ins descs)
        [0..<length (get_ov_outputs body_graph)]"
    and rest: "length results = length (get_ov_outputs body_graph) \<and>
       length params = length (get_ng_parameters body_graph) \<and>
       length xs = length (get_ng_parameters body_graph) \<and>
       length ins = length (get_ng_parameters body_graph) \<and>
       length descs = length (get_ov_outputs body_graph) \<and>
       (\<forall>i<length (get_ng_parameters body_graph) - nat num_scan_inputs.
          xs ! (nat num_scan_inputs + i) = get_ng_inputs n ! (i + nat off) \<and>
          ins ! (nat num_scan_inputs + i) = MergedInput (params ! i) (results ! i) \<and>
          descs ! i = BodyOutput (results ! i) (- 1)) \<and>
       (\<forall>j<nat num_scan_inputs.
          xs ! j = get_ng_inputs n !
            (length (get_ng_parameters body_graph) - nat num_scan_inputs + j + nat off) \<and>
          na (get_description n) (in_axes ! j)
            (rank (get_partial_shape shp
               (get_ng_inputs n !
                 (length (get_ng_parameters body_graph) - nat num_scan_inputs + j +
                  nat off)))) =
            Inr (in_normalized ! j) \<and>
          ins ! j =
            (if in_dirs ! j \<noteq> 0
             then SliceInput
               (params ! (length (get_ng_parameters body_graph) - nat num_scan_inputs + j))
               (- 1) (- 1) 1 0 (in_normalized ! j)
             else SliceInput
               (params ! (length (get_ng_parameters body_graph) - nat num_scan_inputs + j))
               0 1 1 (- 1) (in_normalized ! j))) \<and>
       (\<forall>j<length (get_ov_outputs body_graph) -
            (length (get_ng_parameters body_graph) - nat num_scan_inputs).
          (\<exists>x. results !
               (length (get_ng_parameters body_graph) - nat num_scan_inputs + j) =
             Op Unsqueeze_v0 [x, Constant i64 [1] [I64 (out_axes ! j)]]) \<and>
          na (get_description n) (out_axes ! j)
            (rank (get_partial_shape shp
               (results !
                 (length (get_ng_parameters body_graph) - nat num_scan_inputs + j)))) =
            Inr (out_normalized ! j) \<and>
          descs ! (length (get_ng_parameters body_graph) - nat num_scan_inputs + j) =
            (if out_dirs ! j \<noteq> 0
             then ConcatOutput
               (results !
                 (length (get_ng_parameters body_graph) - nat num_scan_inputs + j))
               (- 1) (- 1) 1 0 (out_normalized ! j)
             else ConcatOutput
               (results !
                 (length (get_ng_parameters body_graph) - nat num_scan_inputs + j))
               0 1 1 (- 1) (out_normalized ! j)))"
    by blast
  from outs have len: "length outs = length (get_ov_outputs body_graph)" by simp
  show ?thesis
    unfolding Let_def
    using counts len a outs rest
    by (intro conjI exI [of _ in_axes] exI [of _ in_dirs] exI [of _ out_axes]
        exI [of _ out_dirs] exI [of _ xs] exI [of _ results] exI [of _ params] exI [of _ ins]
        exI [of _ descs] exI [of _ in_normalized] exI [of _ out_normalized])
      (assumption | (elim conjE, assumption))+
qed

theorem scan_outputs_witness:
  "\<exists>outs. scan_set_9 example_shapes (\<lambda>e. f32) example_normalize_axis example_scan_node =
      Inr outs \<and>
    length outs = 2 \<and>
    (\<exists>xs results params ins descs.
       outs = map (TensorIterator xs results params ins descs) [0..<2] \<and>
       xs ! 0 = get_ng_inputs example_scan_node ! 1 \<and>
       xs ! 1 = get_ng_inputs example_scan_node ! 0 \<and>
       ins ! 0 = SliceInput (params ! 1) (- 1) (- 1) 1 0 0 \<and>
       ins ! 1 = MergedInput (params ! 0) (results ! 0) \<and>
       descs ! 0 = BodyOutput (results ! 0) (- 1) \<and>
       descs ! 1 = ConcatOutput (results ! 1) 0 1 1 (- 1) 0)"
proof -
  have "\<exists>outs. scan_set_9 example_shapes (\<lambda>e. f32) example_normalize_axis example_scan_node =
      Inr outs"
    by (simp add: scan_evaluation example_scan_node_def example_scan_body_def
        example_normalize_axis_def)
  then obtain outs where run:
    "scan_set_9 example_shapes (\<lambda>e. f32) example_normalize_axis example_scan_node = Inr outs"
    ..
  have "length outs = 2 \<and>
    (\<exists>xs results params ins descs.
       outs = map (TensorIterator xs results params ins descs) [0..<2] \<and>
       xs ! 0 = get_ng_inputs example_scan_node ! 1 \<and>
       xs ! 1 = get_ng_inputs example_scan_node ! 0 \<and>
       ins ! 0 = SliceInput (params ! 1) (- 1) (- 1) 1 0 0 \<and>
       ins ! 1 = MergedInput (params ! 0) (results ! 0) \<and>
       descs ! 0 = BodyOutput (results ! 0) (- 1) \<and>
       descs ! 1 = ConcatOutput (results ! 1) 0 1 1 (- 1) 0)"
    using scan_outputs [where n = example_scan_node and shp = example_shapes
        and elt = "\<lambda>e. f32" and na = example_normalize_axis and outs = outs
        and default_axis = 0 and off = 0 and directions_name = "''scan_input_directions''"
        and body_graph = example_scan_body and num_scan_inputs = 1]
      run
    apply (clarsimp simp: example_scan_node_def example_scan_body_def get_attribute_ints_or_def
        example_normalize_axis_def Let_def)
    subgoal for xs results params ins descs
      by (intro exI [of _ xs] exI [of _ results] exI [of _ params] exI [of _ ins]
          exI [of _ descs]) (simp add: numeral_2_eq_2)
    done
  with run show ?thesis by blast
qed

section \<open>Scan: the two opsets\<close>

lemma result_bind_Inl:
  "result_bind m f = Inl e \<longleftrightarrow> m = Inl e \<or> (\<exists>x. m = Inr x \<and> f x = Inl e)"
  by (cases m) simp_all

text \<open>A loop that fails has failed in its body.\<close>

lemma for_loop_error:
  "for_loop i bound body s = Inl e \<Longrightarrow> \<exists>k t. body k t = Inl e"
proof (induction i bound body s rule: for_loop.induct)
  case (1 i bound body s)
  show ?case
  proof (cases "i < bound")
    case False
    with "1.prems" show ?thesis by (simp add: for_loop.simps)
  next
    case True
    show ?thesis
    proof (cases "body i s")
      case (Inl e')
      with True "1.prems" show ?thesis by (auto simp: for_loop.simps [of i])
    next
      case (Inr s')
      with True "1.prems" have "for_loop (i + 1) bound body s' = Inl e"
        by (simp add: for_loop.simps [of i])
      with "1.IH" [OF True] show ?thesis by blast
    qed
  qed
qed

text \<open>The errors of \<^verbatim>\<open>scan_to_tensor_iterator\<close> are those of \<^verbatim>\<open>operator[]\<close> and those of
  \<^verbatim>\<open>normalize_axis\<close>: it has no assertion of its own.\<close>

lemma vector_index_error: "vector_index xs i = Inl e \<Longrightarrow> e = undefined_behaviour"
  by (simp add: vector_index_def split: if_splits)

lemma align_scan_input_error:
  assumes "align_scan_input shp na node_inputs niv in_axes off desc i b = Inl e"
  shows "e = undefined_behaviour \<or> (\<exists>d a r. na d a r = Inl e)"
proof (cases "vector_index in_axes (size_t i)")
  case (Inl e')
  with assms show ?thesis
    by (auto simp: align_scan_input_def Let_def dest: vector_index_error)
next
  case axis: (Inr axis)
  show ?thesis
  proof (cases "vector_index node_inputs (size_t (int (size_t (int niv + i)) + off))")
    case (Inl e')
    with assms axis show ?thesis
      by (auto simp: align_scan_input_def Let_def dest: vector_index_error)
  next
    case input: (Inr node_input)
    show ?thesis
    proof (cases "case get_partial_shape shp node_input of
           DynamicRank \<Rightarrow> Inr DynamicRank
         | Ranked ds \<Rightarrow>
             result_bind (na desc axis (rank (Ranked ds)))
               (\<lambda>normalized. set_dimension ds normalized (Static 1))")
      case (Inl e')
      with assms axis input have "e' = e"
        by (simp add: align_scan_input_def Let_def)
      with Inl show ?thesis
        by (auto simp: result_bind_Inl set_dimension_def
            split: partial_shape.splits if_splits)
    next
      case (Inr shape)
      with assms axis input show ?thesis
        by (auto simp: align_scan_input_def Let_def result_bind_Inl dest: vector_index_error)
    qed
  qed
qed

lemma scan_loop_errors:
  "align_initial_value shp elt node_inputs off i b = Inl e \<Longrightarrow> e = undefined_behaviour"
  "align_scan_output niv out_axes i b = Inl e \<Longrightarrow> e = undefined_behaviour"
  "slice_scan_input shp na node_inputs body_inputs niv in_axes in_dirs off desc i ti = Inl e \<Longrightarrow>
     e = undefined_behaviour \<or> (\<exists>d a r. na d a r = Inl e)"
  "merge_initial_value node_inputs body_inputs body_outputs off i st = Inl e \<Longrightarrow>
     e = undefined_behaviour"
  "concatenate_scan_output shp na body_outputs niv out_axes out_dirs desc i st = Inl e \<Longrightarrow>
     e = undefined_behaviour \<or> (\<exists>d a r. na d a r = Inl e)"
  by (auto simp: align_initial_value_def align_scan_output_def
      slice_scan_input_def merge_initial_value_def concatenate_scan_output_def
      result_bind_Inl Let_def
      dest: vector_index_error split: if_splits)

lemma scan_to_tensor_iterator_error:
  assumes "scan_to_tensor_iterator shp elt na node_inputs body_inputs body_outputs nsi in_axes
     in_dirs out_axes out_dirs off desc = Inl e"
  shows "e = undefined_behaviour \<or> (\<exists>d a r. na d a r = Inl e)"
  using assms unfolding scan_to_tensor_iterator_def Let_def result_bind_Inl
  by (elim disjE exE conjE) (auto dest!: for_loop_error dest: scan_loop_errors align_scan_input_error)

lemma import_onnx_scan_error:
  assumes "import_onnx_scan shp elt na n default_axis off name = Inl (assertion_error msg)"
  shows "\<exists>d a r. na d a r = Inl (assertion_error msg)"
proof -
  from assms obtain node_inputs body_inputs body_outputs nsi in_axes in_dirs out_axes out_dirs
    where "scan_to_tensor_iterator shp elt na node_inputs body_inputs body_outputs nsi in_axes
     in_dirs out_axes out_dirs off (get_description n) = Inl (assertion_error msg)"
    unfolding import_onnx_scan_def Let_def result_bind_Inl
    by (elim disjE exE conjE)
      (auto simp: map_at_def get_attribute_int_def get_attribute_ints_or_def vector_of_def
        split: option.splits attribute.splits if_splits)
  from scan_to_tensor_iterator_error [OF this] show ?thesis by simp
qed

text \<open>C6. Take a scan node with a body, an integer \<^verbatim>\<open>num_scan_inputs\<close> between 0 and the
  number of body parameters, no more state variables than body outputs, and an input 0.
  \<^item> The translation of opset 1 fails with an assertion, whose message is the description
    of the node and the sentence of the code, when input 0 (\<^verbatim>\<open>sequence_lens\<close>) is not null.
    When input 0 is null it is the call of \<^verbatim>\<open>scan_to_tensor_iterator\<close> with input offset 1
    whose axes are the attributes \<^verbatim>\<open>scan_input_axes\<close> and \<^verbatim>\<open>scan_output_axes\<close> or, without
    them, 1 for each scan input and output, and whose input directions are the attribute
    \<^verbatim>\<open>directions\<close> or, without it, 0 for each scan input.
  \<^item> The translation of opset 9 is that call with input offset 0, default axis 0 and the
    input directions of the attribute \<^verbatim>\<open>scan_input_directions\<close>, whatever input 0 is.
  \<^item> An assertion failure of the translation of opset 9 is one of \<^verbatim>\<open>normalize_axis\<close>: the
    translation checks no input itself.\<close>

theorem scan_opsets:
  assumes body: "get_subgraphs n ''body'' = Some body_graph"
    and count: "attributes n ''num_scan_inputs'' = Some (AttrInt num_scan_inputs)"
    and ranges: "0 \<le> num_scan_inputs"
      "nat num_scan_inputs \<le> length (get_ng_parameters body_graph)"
      "length (get_ng_parameters body_graph) - nat num_scan_inputs \<le>
         length (get_ov_outputs body_graph)"
      "length (get_ng_parameters body_graph) < 2 ^ 60"
      "length (get_ov_outputs body_graph) < 2 ^ 60"
    and inputs: "get_ng_inputs n = sequence_lens # rest"
  shows
    "let body_inputs = get_ng_parameters body_graph;
         body_outputs = get_ov_outputs body_graph;
         num_scan_outputs = length body_outputs - (length body_inputs - nat num_scan_inputs);
         import = (\<lambda>default_axis in_offset in_directions_attr_name.
           result_bind (get_attribute_ints_or n ''scan_input_axes''
             (replicate (nat num_scan_inputs) default_axis)) (\<lambda>scan_input_axes.
           result_bind (get_attribute_ints_or n in_directions_attr_name
             (replicate (nat num_scan_inputs) 0)) (\<lambda>scan_input_directions.
           result_bind (get_attribute_ints_or n ''scan_output_axes''
             (replicate num_scan_outputs default_axis)) (\<lambda>scan_output_axes.
           result_bind (get_attribute_ints_or n ''scan_output_directions''
             (replicate num_scan_outputs 0)) (\<lambda>scan_output_directions.
             scan_to_tensor_iterator shp elt na (get_ng_inputs n) body_inputs body_outputs
               num_scan_inputs scan_input_axes scan_input_directions scan_output_axes
               scan_output_directions in_offset (get_description n))))))
     in scan_set_1 shp elt na n =
          (if is_null sequence_lens then import 1 1 ''directions''
           else Inl (assertion_error (get_description n @
             '' ONNX Scan-8 `sequence_lens` input is not supported. ''))) \<and>
        scan_set_9 shp elt na n = import 0 0 ''scan_input_directions'' \<and>
        (\<forall>msg. scan_set_9 shp elt na n = Inl (assertion_error msg) \<longrightarrow>
           (\<exists>d a r. na d a r = Inl (assertion_error msg)))"
proof -
  define P where "P = length (get_ng_parameters body_graph)"
  define Q where "Q = length (get_ov_outputs body_graph)"
  have b: "map_at (get_subgraphs n) ''body'' = Inr body_graph"
    and c: "get_attribute_int n ''num_scan_inputs'' = Inr num_scan_inputs"
    using body count by (simp_all add: map_at_def get_attribute_int_def)
  have s1: "size_t num_scan_inputs = nat num_scan_inputs"
    using ranges by (intro size_t_id) (simp_all add: P_def)
  have niv: "size_t (int P - num_scan_inputs) = P - nat num_scan_inputs"
    using ranges by (subst size_t_id) (simp_all add: P_def nat_diff_distrib)
  have nso: "size_t (int Q - int (P - nat num_scan_inputs)) = Q - (P - nat num_scan_inputs)"
    using ranges by (subst size_t_id) (simp_all add: P_def Q_def nat_diff_distrib)
  have v1: "vector_of (nat num_scan_inputs) x = Inr (replicate (nat num_scan_inputs) x)" for x :: int
    using ranges by (simp add: vector_of_def)
  have v2: "vector_of (Q - (P - nat num_scan_inputs)) x =
      Inr (replicate (Q - (P - nat num_scan_inputs)) x)" for x :: int
    using ranges by (simp add: vector_of_def Q_def)
  have import: "import_onnx_scan shp elt na n default_axis in_offset name =
           result_bind (get_attribute_ints_or n ''scan_input_axes''
             (replicate (nat num_scan_inputs) default_axis)) (\<lambda>scan_input_axes.
           result_bind (get_attribute_ints_or n name
             (replicate (nat num_scan_inputs) 0)) (\<lambda>scan_input_directions.
           result_bind (get_attribute_ints_or n ''scan_output_axes''
             (replicate (Q - (P - nat num_scan_inputs)) default_axis)) (\<lambda>scan_output_axes.
           result_bind (get_attribute_ints_or n ''scan_output_directions''
             (replicate (Q - (P - nat num_scan_inputs)) 0)) (\<lambda>scan_output_directions.
             scan_to_tensor_iterator shp elt na (get_ng_inputs n) (get_ng_parameters body_graph)
               (get_ov_outputs body_graph)
               num_scan_inputs scan_input_axes scan_input_directions scan_output_axes
               scan_output_directions in_offset (get_description n)))))"
    for default_axis in_offset name
    unfolding import_onnx_scan_def Let_def b c result_bind.simps
    unfolding P_def [symmetric] Q_def [symmetric] s1 niv nso v1 v2 result_bind.simps ..
  have one: "scan_set_1 shp elt na n =
      (if is_null sequence_lens then import_onnx_scan shp elt na n 1 1 ''directions''
       else Inl (assertion_error (get_description n @
         '' ONNX Scan-8 `sequence_lens` input is not supported. '')))"
    using inputs by (simp add: scan_set_1_def vector_at_def openvino_assert_def)
  have nine: "scan_set_9 shp elt na n =
      import_onnx_scan shp elt na n 0 0 ''scan_input_directions''"
    by (simp add: scan_set_9_def)
  have no_check: "\<forall>msg. scan_set_9 shp elt na n = Inl (assertion_error msg) \<longrightarrow>
           (\<exists>d a r. na d a r = Inl (assertion_error msg))"
    unfolding nine by (blast dest: import_onnx_scan_error)
  show ?thesis
    unfolding Let_def P_def [symmetric] Q_def [symmetric]
    using one nine no_check unfolding import by (intro conjI) assumption+
qed

theorem scan_opsets_witness:
  "scan_set_1 example_shapes (\<lambda>e. f32) example_normalize_axis example_scan_node =
     Inl (assertion_error ''Scan ONNX Scan-8 `sequence_lens` input is not supported. '') \<and>
   scan_set_1 example_shapes (\<lambda>e. f32) example_normalize_axis example_scan_8_node =
     scan_to_tensor_iterator example_shapes (\<lambda>e. f32) example_normalize_axis
       (get_ng_inputs example_scan_8_node) (get_ng_parameters example_scan_body)
       (get_ov_outputs example_scan_body) 1 [1] [0] [1] [0] 1 ''Scan'' \<and>
   scan_set_9 example_shapes (\<lambda>e. f32) example_normalize_axis example_scan_node =
     scan_to_tensor_iterator example_shapes (\<lambda>e. f32) example_normalize_axis
       (get_ng_inputs example_scan_node) (get_ng_parameters example_scan_body)
       (get_ov_outputs example_scan_body) 1 [0] [1] [0] [0] 0 ''Scan''"
  using scan_opsets [where n = example_scan_node and shp = example_shapes
      and elt = "\<lambda>e. f32" and na = example_normalize_axis
      and body_graph = example_scan_body and num_scan_inputs = 1
      and sequence_lens = "Parameter (Param 0 f32 (Ranked [Static 2]))"
      and rest = "[Parameter (Param 1 f32 (Ranked [Static 5, Static 2]))]"]
    scan_opsets [where n = example_scan_8_node and shp = example_shapes
      and elt = "\<lambda>e. f32" and na = example_normalize_axis
      and body_graph = example_scan_body and num_scan_inputs = 1
      and sequence_lens = NullNode
      and rest = "[Parameter (Param 0 f32 (Ranked [Static 2])),
         Parameter (Param 1 f32 (Ranked [Static 5, Static 2]))]"]
  by (simp add: example_scan_node_def example_scan_8_node_def example_scan_body_def
      get_attribute_ints_or_def Let_def)

section \<open>Scan: alignment of the scan inputs\<close>

lemma get_source_output_leaf:
  "get_source_output (Parameter q) path = Some x \<longleftrightarrow> path = [] \<and> x = Parameter q"
  "get_source_output (Constant t sh d) path = Some x \<longleftrightarrow> path = [] \<and> x = Constant t sh d"
  "get_source_output NullNode path = Some x \<longleftrightarrow> path = [] \<and> x = NullNode"
  by (cases path; auto)+

text \<open>Writing to a Parameter changes no path of the graph, and keeps the identity of
  every Parameter.\<close>

lemma get_source_output_update_parameter:
  "get_source_output (update_parameter p e) path =
     map_option (update_parameter p) (get_source_output e path)"
proof (induction path arbitrary: e)
  case Nil
  show ?case by simp
next
  case (Cons k path)
  show ?case by (cases e) (simp_all add: Cons.IH)
qed

text \<open>Replacing the source of the consumers of a Parameter: an input that consumed the
  Parameter consumes the new output, every other input consumes what it consumed, with
  the replacement carried out below it.\<close>

lemma get_source_output_replace:
  "get_source_output e path = Some x \<Longrightarrow>
   get_source_output (replace_source_output i new e) path =
     Some (if path \<noteq> [] \<and> is_parameter i x then new else replace_source_output i new x)"
proof (induction path arbitrary: e)
  case Nil
  then show ?case by simp
next
  case (Cons k path)
  show ?case
  proof (cases e)
    case (Op t xs)
    with Cons.prems have k: "k < length xs" and sub: "get_source_output (xs ! k) path = Some x"
      by (simp_all split: if_splits)
    show ?thesis
    proof (cases "is_parameter i (xs ! k)")
      case True
      then obtain q where "xs ! k = Parameter q" by (cases "xs ! k") simp_all
      with sub True have "path = []" "is_parameter i x"
        by (auto simp: get_source_output_leaf)
      with Op k True show ?thesis by simp
    next
      case False
      from Cons.IH [OF sub] have "get_source_output (replace_source_output i new (xs ! k)) path =
          Some (if path \<noteq> [] \<and> is_parameter i x then new else replace_source_output i new x)" .
      moreover have "path = [] \<Longrightarrow> \<not> is_parameter i x" using sub False by simp
      ultimately show ?thesis using Op k False by auto
    qed
  next
    case (TensorIterator xs results params ins outs n)
    with Cons.prems have k: "k < length xs" and sub: "get_source_output (xs ! k) path = Some x"
      by (simp_all split: if_splits)
    show ?thesis
    proof (cases "is_parameter i (xs ! k)")
      case True
      then obtain q where "xs ! k = Parameter q" by (cases "xs ! k") simp_all
      with sub True have "path = []" "is_parameter i x"
        by (auto simp: get_source_output_leaf)
      with TensorIterator k True show ?thesis by simp
    next
      case False
      from Cons.IH [OF sub] have "get_source_output (replace_source_output i new (xs ! k)) path =
          Some (if path \<noteq> [] \<and> is_parameter i x then new else replace_source_output i new x)" .
      moreover have "path = [] \<Longrightarrow> \<not> is_parameter i x" using sub False by simp
      ultimately show ?thesis using TensorIterator k False by auto
    qed
  qed (use Cons.prems in simp_all)
qed

lemma align_initial_values_parameters:
  assumes loop: "for_loop 0 bound (align_initial_value shp elt node_inputs off) b0 = Inr b1"
  shows "\<forall>j<length (snd b0). \<forall>path q.
    get_source_output (snd b0 ! j) path = Some (Parameter q) \<longrightarrow>
    (\<exists>q'. get_source_output (snd b1 ! j) path = Some (Parameter q') \<and>
       param_id q' = param_id q)"
proof -
  define I where "I = (\<lambda>(k::int) (b::parameter list \<times> out list).
    length (snd b) = length (snd b0) \<and>
    (\<forall>j<length (snd b0). \<forall>path q.
      get_source_output (snd b0 ! j) path = Some (Parameter q) \<longrightarrow>
      (\<exists>q'. get_source_output (snd b ! j) path = Some (Parameter q') \<and>
         param_id q' = param_id q)))"
  have "I (max 0 bound) b1"
  proof (rule for_loop_invariant [OF loop])
    show "I 0 b0" by (simp add: I_def)
  next
    fix k t t'
    assume inv: "I k t" and body: "align_initial_value shp elt node_inputs off k t = Inr t'"
    from body obtain p where t': "t' = set_parameter p t"
      by (auto simp: align_initial_value_def result_bind_Inr)
    show "I (k + 1) t'"
      unfolding I_def
    proof (intro conjI allI impI)
      show "length (snd t') = length (snd b0)"
        using inv by (simp add: I_def t' set_parameter_shape)
    next
      fix j path q
      assume j: "j < length (snd b0)"
        and q: "get_source_output (snd b0 ! j) path = Some (Parameter q)"
      with inv obtain q' where q': "get_source_output (snd t ! j) path = Some (Parameter q')"
        "param_id q' = param_id q" and len: "length (snd t) = length (snd b0)"
        unfolding I_def by blast
      have "get_source_output (snd t' ! j) path =
          Some (Parameter (if param_id q' = param_id p then p else q'))"
        using j len q'(1)
        by (simp add: t' set_parameter_def get_source_output_update_parameter)
      with q'(2) show "\<exists>q'. get_source_output (snd t' ! j) path = Some (Parameter q') \<and>
          param_id q' = param_id q"
        by auto
    qed
  qed
  then show ?thesis by (simp add: I_def)
qed

lemma set_dimension_Inr:
  "set_dimension ds a d = Inr shape \<longleftrightarrow>
     0 \<le> a \<and> nat a < length ds \<and> shape = Ranked (ds[nat a := d])"
  by (auto simp: set_dimension_def)

lemma align_scan_input_Inr:
  assumes body: "align_scan_input shp na node_inputs niv axes off desc k t = Inr t'"
    and k: "0 \<le> k" "int niv + k < 2 ^ 63" "0 \<le> off" "off < 2 ^ 63"
  obtains shape where
    "nat k < length axes" "niv + nat k + nat off < length node_inputs"
    "niv + nat k < length (fst t)"
    "case get_partial_shape shp (node_inputs ! (niv + nat k + nat off)) of
       DynamicRank \<Rightarrow> shape = DynamicRank
     | Ranked ds \<Rightarrow> \<exists>a. na desc (axes ! nat k) (Some (length ds)) = Inr a \<and> 0 \<le> a \<and>
         nat a < length ds \<and> shape = Ranked (ds[nat a := Static 1])"
    "t' =
      (fst (set_parameter
         (Param (param_id (fst t ! (niv + nat k)))
            (param_element_type (fst t ! (niv + nat k))) shape) t),
       map (replace_source_output (param_id (fst t ! (niv + nat k)))
         (Op Squeeze_v0
            [Parameter (Param (param_id (fst t ! (niv + nat k)))
               (param_element_type (fst t ! (niv + nat k))) shape),
             Constant i64 [1] [I64 (axes ! nat k)]]))
         (snd (set_parameter
            (Param (param_id (fst t ! (niv + nat k)))
               (param_element_type (fst t ! (niv + nat k))) shape) t)))"
proof -
  from k have st: "size_t k = nat k" "size_t (int niv + k) = niv + nat k"
    "size_t (int niv + k + off) = niv + nat k + nat off"
    by (simp_all add: size_t_id nat_add_distrib)
  from body k obtain shape where
    a: "nat k < length axes" "niv + nat k + nat off < length node_inputs"
      "niv + nat k < length (fst t)"
    and shape: "(case get_partial_shape shp (node_inputs ! (niv + nat k + nat off)) of
           DynamicRank \<Rightarrow> Inr DynamicRank
         | Ranked ds \<Rightarrow>
             result_bind (na desc (axes ! nat k) (rank (Ranked ds)))
               (\<lambda>normalized. set_dimension ds normalized (Static 1))) = Inr shape"
    and t': "t' =
      (fst (set_parameter
         (Param (param_id (fst t ! (niv + nat k)))
            (param_element_type (fst t ! (niv + nat k))) shape) t),
       map (replace_source_output (param_id (fst t ! (niv + nat k)))
         (Op Squeeze_v0
            [Parameter (Param (param_id (fst t ! (niv + nat k)))
               (param_element_type (fst t ! (niv + nat k))) shape),
             Constant i64 [1] [I64 (axes ! nat k)]]))
         (snd (set_parameter
            (Param (param_id (fst t ! (niv + nat k)))
               (param_element_type (fst t ! (niv + nat k))) shape) t)))"
    by (auto simp: align_scan_input_def Let_def st result_bind_Inr vector_index_Inr)
  from shape have s: "case get_partial_shape shp (node_inputs ! (niv + nat k + nat off)) of
       DynamicRank \<Rightarrow> shape = DynamicRank
     | Ranked ds \<Rightarrow> \<exists>a. na desc (axes ! nat k) (Some (length ds)) = Inr a \<and> 0 \<le> a \<and>
         nat a < length ds \<and> shape = Ranked (ds[nat a := Static 1])"
    by (auto simp: result_bind_Inr set_dimension_Inr split: partial_shape.splits)
  show thesis by (rule that [OF a s t'])
qed

lemma align_scan_inputs_squeeze:
  assumes loop: "for_loop 0 nsi
      (align_scan_input shp na node_inputs niv axes off desc) b1 = Inr b2"
    and ranges: "int niv + nsi < 2 ^ 63" "0 \<le> off" "off < 2 ^ 63"
    and ids: "distinct (map param_id (fst b1))"
    and m: "int m < nsi"
    and static: "get_partial_shape shp (node_inputs ! (niv + m + nat off)) = Ranked ds"
  shows "\<exists>axis p.
    na desc (axes ! m) (Some (length ds)) = Inr axis \<and> 0 \<le> axis \<and> nat axis < length ds \<and>
    fst b2 ! (niv + m) = p \<and> param_id p = param_id (fst b1 ! (niv + m)) \<and>
    param_partial_shape p = Ranked (ds[nat axis := Static 1]) \<and>
    (\<forall>j<length (snd b1). \<forall>path q.
       path \<noteq> [] \<longrightarrow> get_source_output (snd b1 ! j) path = Some (Parameter q) \<longrightarrow>
       param_id q = param_id (fst b1 ! (niv + m)) \<longrightarrow>
       get_source_output (snd b2 ! j) path =
         Some (Op Squeeze_v0 [Parameter p, Constant i64 [1] [I64 (axes ! m)]]))"
proof -
  define pid where "pid = param_id (fst b1 ! (niv + m))"
  define before where "before = (\<lambda>b::parameter list \<times> out list.
    \<forall>j<length (snd b1). \<forall>path q.
      get_source_output (snd b1 ! j) path = Some (Parameter q) \<longrightarrow> param_id q = pid \<longrightarrow>
      (\<exists>q'. get_source_output (snd b ! j) path = Some (Parameter q') \<and> param_id q' = pid))"
  define after where "after = (\<lambda>b::parameter list \<times> out list.
    \<exists>axis p.
      na desc (axes ! m) (Some (length ds)) = Inr axis \<and> 0 \<le> axis \<and> nat axis < length ds \<and>
      fst b ! (niv + m) = p \<and> param_id p = pid \<and>
      param_partial_shape p = Ranked (ds[nat axis := Static 1]) \<and>
      (\<forall>j<length (snd b1). \<forall>path q.
         path \<noteq> [] \<longrightarrow> get_source_output (snd b1 ! j) path = Some (Parameter q) \<longrightarrow>
         param_id q = pid \<longrightarrow>
         get_source_output (snd b ! j) path =
           Some (Op Squeeze_v0 [Parameter p, Constant i64 [1] [I64 (axes ! m)]])))"
  define I where "I = (\<lambda>k (b::parameter list \<times> out list).
    length (fst b) = length (fst b1) \<and> length (snd b) = length (snd b1) \<and>
    map param_id (fst b) = map param_id (fst b1) \<and>
    (k \<le> int m \<longrightarrow> before b) \<and> (int m < k \<longrightarrow> after b))"
  have "I (max 0 nsi) b2"
  proof (rule for_loop_invariant [OF loop])
    show "I 0 b1" by (auto simp: I_def before_def)
  next
    fix k t t'
    assume k: "0 \<le> k" "k < nsi" and inv: "I k t"
      and body: "align_scan_input shp na node_inputs niv axes off desc k t = Inr t'"
    from k ranges have kr: "int niv + k < 2 ^ 63" by simp
    from inv have len: "length (fst t) = length (fst b1)" "length (snd t) = length (snd b1)"
      and same_ids: "map param_id (fst t) = map param_id (fst b1)"
      by (simp_all add: I_def)
    from align_scan_input_Inr [OF body k(1) kr ranges(2,3)] obtain shape where
      a: "niv + nat k < length (fst t)"
      and shape: "case get_partial_shape shp (node_inputs ! (niv + nat k + nat off)) of
         DynamicRank \<Rightarrow> shape = DynamicRank
       | Ranked ds \<Rightarrow> \<exists>a. na desc (axes ! nat k) (Some (length ds)) = Inr a \<and> 0 \<le> a \<and>
           nat a < length ds \<and> shape = Ranked (ds[nat a := Static 1])"
      and t': "t' =
        (fst (set_parameter
           (Param (param_id (fst t ! (niv + nat k)))
              (param_element_type (fst t ! (niv + nat k))) shape) t),
         map (replace_source_output (param_id (fst t ! (niv + nat k)))
           (Op Squeeze_v0
              [Parameter (Param (param_id (fst t ! (niv + nat k)))
                 (param_element_type (fst t ! (niv + nat k))) shape),
               Constant i64 [1] [I64 (axes ! nat k)]]))
           (snd (set_parameter
              (Param (param_id (fst t ! (niv + nat k)))
                 (param_element_type (fst t ! (niv + nat k))) shape) t)))"
      by blast
    define kid where "kid = param_id (fst t ! (niv + nat k))"
    define aligned where
      "aligned = Param kid (param_element_type (fst t ! (niv + nat k))) shape"
    define squeeze where
      "squeeze = Op Squeeze_v0 [Parameter aligned, Constant i64 [1] [I64 (axes ! nat k)]]"
    have fst_t': "fst t' = map (\<lambda>q. if param_id q = kid then aligned else q) (fst t)"
      and snd_t': "snd t' =
        map (\<lambda>e. replace_source_output kid squeeze (update_parameter aligned e)) (snd t)"
      by (simp_all add: t' set_parameter_def aligned_def squeeze_def kid_def)
    have m_len: "niv + m < length (fst b1)"
      using align_scan_inputs [OF loop] ranges(1) m by auto
    have nth_id: "param_id (fst t ! n) = param_id (fst b1 ! n)" if "n < length (fst b1)" for n
      using that same_ids len by (metis nth_map)
    have kid: "kid = param_id (fst b1 ! (niv + nat k))"
      using a len by (simp add: kid_def nth_id)
    have other: "kid \<noteq> pid" if "nat k \<noteq> m"
    proof -
      have "(map param_id (fst b1) ! (niv + nat k) = map param_id (fst b1) ! (niv + m)) =
          (niv + nat k = niv + m)"
        by (rule nth_eq_iff_index_eq [OF ids]) (use a m_len len in simp_all)
      moreover have "map param_id (fst b1) ! (niv + nat k) = kid"
        "map param_id (fst b1) ! (niv + m) = pid"
        using a m_len len by (simp_all add: kid pid_def)
      ultimately show ?thesis using that by simp
    qed
    have basics: "length (fst t') = length (fst b1)" "length (snd t') = length (snd b1)"
      "map param_id (fst t') = map param_id (fst b1)"
      using len nth_id by (auto simp: fst_t' snd_t' aligned_def intro!: nth_equalityI)
    have step_before: "before t'" if "k + 1 \<le> int m" and b: "before t"
      unfolding before_def
    proof (intro allI impI)
      fix j path q
      assume j: "j < length (snd b1)"
        and q: "get_source_output (snd b1 ! j) path = Some (Parameter q)" "param_id q = pid"
      with b obtain q' where q': "get_source_output (snd t ! j) path = Some (Parameter q')"
        "param_id q' = pid"
        unfolding before_def by blast
      from that(1) k have "nat k \<noteq> m" by linarith
      then have ne: "kid \<noteq> pid" by (rule other)
      have "get_source_output (update_parameter aligned (snd t ! j)) path =
          Some (Parameter q')"
        using q' ne by (simp add: get_source_output_update_parameter aligned_def)
      from get_source_output_replace [OF this, of kid squeeze]
      have "get_source_output (snd t' ! j) path = Some (Parameter q')"
        using j len q'(2) ne by (simp add: snd_t')
      with q'(2) show "\<exists>q'. get_source_output (snd t' ! j) path = Some (Parameter q') \<and>
          param_id q' = pid"
        by blast
    qed
    have step_now: "after t'" if km: "k = int m" and b: "before t"
    proof -
      from km have nk: "nat k = m" by simp
      from shape static obtain axis where axis:
        "na desc (axes ! m) (Some (length ds)) = Inr axis" "0 \<le> axis" "nat axis < length ds"
        "shape = Ranked (ds[nat axis := Static 1])"
        by (auto simp: nk)
      have kp: "kid = pid" by (simp add: kid nk pid_def)
      have p: "fst t' ! (niv + m) = aligned"
        using a nk by (simp add: fst_t' kid_def)
      have occ: "get_source_output (snd t' ! j) path = Some squeeze"
        if j: "j < length (snd b1)" and path: "path \<noteq> []"
          and q: "get_source_output (snd b1 ! j) path = Some (Parameter q)" "param_id q = pid"
        for j path q
      proof -
        from b j q obtain q' where
          q': "get_source_output (snd t ! j) path = Some (Parameter q')" "param_id q' = pid"
          unfolding before_def by blast
        have "get_source_output (update_parameter aligned (snd t ! j)) path =
            Some (Parameter aligned)"
          using q' kp by (simp add: get_source_output_update_parameter aligned_def)
        from get_source_output_replace [OF this, of kid squeeze]
        show ?thesis using j len path by (simp add: snd_t' aligned_def)
      qed
      show ?thesis
        unfolding after_def
        using axis p occ
        by (intro exI [of _ axis] exI [of _ aligned])
          (simp add: aligned_def kp squeeze_def nk)
    qed
    have step_after: "after t'" if km: "int m < k" and b: "after t"
    proof -
      from km have "nat k \<noteq> m" by linarith
      then have ne: "kid \<noteq> pid" by (rule other)
      from b obtain axis p where axis:
        "na desc (axes ! m) (Some (length ds)) = Inr axis" "0 \<le> axis" "nat axis < length ds"
        and p: "fst t ! (niv + m) = p" "param_id p = pid"
          "param_partial_shape p = Ranked (ds[nat axis := Static 1])"
        and occ: "\<forall>j<length (snd b1). \<forall>path q.
           path \<noteq> [] \<longrightarrow> get_source_output (snd b1 ! j) path = Some (Parameter q) \<longrightarrow>
           param_id q = pid \<longrightarrow>
           get_source_output (snd t ! j) path =
             Some (Op Squeeze_v0 [Parameter p, Constant i64 [1] [I64 (axes ! m)]])"
        unfolding after_def by blast
      have p': "fst t' ! (niv + m) = p"
        using m_len len p ne by (simp add: fst_t')
      have occ': "get_source_output (snd t' ! j) path =
          Some (Op Squeeze_v0 [Parameter p, Constant i64 [1] [I64 (axes ! m)]])"
        if j: "j < length (snd b1)" and path: "path \<noteq> []"
          and q: "get_source_output (snd b1 ! j) path = Some (Parameter q)" "param_id q = pid"
        for j path q
      proof -
        from occ j path q have "get_source_output (snd t ! j) path =
            Some (Op Squeeze_v0 [Parameter p, Constant i64 [1] [I64 (axes ! m)]])"
          by blast
        then have "get_source_output (update_parameter aligned (snd t ! j)) path =
            Some (Op Squeeze_v0 [Parameter p, Constant i64 [1] [I64 (axes ! m)]])"
          using p(2) ne by (simp add: get_source_output_update_parameter aligned_def)
        from get_source_output_replace [OF this, of kid squeeze]
        show ?thesis using j len p(2) ne by (simp add: snd_t')
      qed
      show ?thesis
        unfolding after_def
        using axis p' p(2,3) occ'
        by (intro exI [of _ axis] exI [of _ p]) simp
    qed
    show "I (k + 1) t'"
      unfolding I_def
    proof (intro conjI impI)
      show "length (fst t') = length (fst b1)" "length (snd t') = length (snd b1)"
        "map param_id (fst t') = map param_id (fst b1)"
        by (rule basics)+
    next
      assume "k + 1 \<le> int m"
      with inv show "before t'" by (intro step_before) (simp_all add: I_def)
    next
      assume "int m < k + 1"
      then consider "k = int m" | "int m < k" by linarith
      then show "after t'"
      proof cases
        case 1
        with inv show ?thesis by (intro step_now) (simp_all add: I_def)
      next
        case 2
        with inv show ?thesis by (intro step_after) (simp_all add: I_def)
      qed
    qed
  qed
  moreover from m have "int m < max 0 nsi" by simp
  ultimately have "after b2" by (simp add: I_def)
  then show ?thesis unfolding after_def pid_def by blast
qed

text \<open>What a call of \<^verbatim>\<open>scan_to_tensor_iterator\<close> that returns has gone through.\<close>

lemma scan_to_tensor_iterator_stages:
  assumes run: "scan_to_tensor_iterator shp elt na node_inputs body_inputs body_outputs nsi
      in_axes in_dirs out_axes out_dirs off desc = Inr outs"
    and ranges: "length body_inputs < 2 ^ 63" "length body_outputs < 2 ^ 63"
      "- (2 ^ 63) \<le> nsi" "nsi < 2 ^ 63" "0 \<le> off" "off < 2 ^ 63"
  obtains b1 b2 b3 ti3 where
    "0 \<le> nsi" "nat nsi \<le> length body_inputs"
    "length body_inputs - nat nsi \<le> length body_outputs"
    "for_loop 0 (int (length body_inputs - nat nsi))
       (align_initial_value shp elt node_inputs off) (body_inputs, body_outputs) = Inr b1"
    "for_loop 0 nsi
       (align_scan_input shp na node_inputs (length body_inputs - nat nsi) in_axes off desc)
       b1 = Inr b2"
    "for_loop 0 (int (length body_outputs - (length body_inputs - nat nsi)))
       (align_scan_output (length body_inputs - nat nsi) out_axes) b2 = Inr b3"
    "ti_results ti3 = snd b3" "ti_parameters ti3 = fst b3"
    "\<forall>out\<in>set outs. \<exists>k. out = ti_output ti3 k"
proof -
  define P where "P = length body_inputs"
  define Q where "Q = length body_outputs"
  define niv where "niv = size_t (int P - nsi)"
  define nso where "nso = size_t (int Q - int niv)"
  from run obtain b1 b2 b3 ti1 s2 s3 where
    l1: "for_loop 0 (int niv) (align_initial_value shp elt node_inputs off)
        (body_inputs, body_outputs) = Inr b1"
    and l2: "for_loop 0 nsi (align_scan_input shp na node_inputs niv in_axes off desc) b1 =
        Inr b2"
    and l3: "for_loop 0 (int nso) (align_scan_output niv out_axes) b2 = Inr b3"
    and l4: "for_loop 0 nsi
        (slice_scan_input shp na node_inputs (fst b3) niv in_axes in_dirs off desc)
        (set_function (snd b3) (fst b3) new_tensor_iterator) = Inr ti1"
    and l5: "for_loop 0 (int niv) (merge_initial_value node_inputs (fst b3) (snd b3) off)
        (ti1, []) = Inr s2"
    and l6: "for_loop 0 (int nso)
        (concatenate_scan_output shp na (snd b3) niv out_axes out_dirs desc) s2 = Inr s3"
    and outs: "outs = map (ti_output (fst s3)) (snd s3)"
    unfolding scan_to_tensor_iterator_def Let_def niv_def nso_def P_def Q_def
    by (auto simp: result_bind_Inr)
  from scan_to_tensor_iterator_returns [OF run ranges]
  have counts: "0 \<le> nsi" "nat nsi \<le> P" "P - nat nsi \<le> Q"
    by (simp_all add: P_def Q_def)
  have niv: "niv = P - nat nsi"
    unfolding niv_def using counts ranges(1)
    by (subst size_t_id) (simp_all add: P_def nat_diff_distrib)
  have nso: "nso = Q - (P - nat nsi)"
    unfolding nso_def niv using counts ranges(2)
    by (subst size_t_id) (simp_all add: Q_def nat_diff_distrib)
  have r4: "int niv + nsi < 2 ^ 63" using niv counts ranges(1) by (simp add: P_def)
  have r5: "int niv < 2 ^ 63" using niv ranges(1) by (simp add: P_def)
  have r6: "int niv + int nso < 2 ^ 63" using niv nso counts ranges(2) by (simp add: Q_def)
  have t1: "ti_results ti1 = snd b3" "ti_parameters ti1 = fst b3"
    "ti_output_descriptions ti1 = []"
    using slice_scan_inputs [OF l4 r4 ranges(5,6)]
    by (simp_all add: set_function_def new_tensor_iterator_def)
  have t2: "ti_results (fst s2) = snd b3" "ti_parameters (fst s2) = fst b3"
    using merge_initial_values [OF l5 r5 ranges(5,6) t1(3)] t1 by simp_all
  have t3: "ti_results (fst s3) = snd b3" "ti_parameters (fst s3) = fst b3"
    using concatenate_scan_outputs [OF l6 r6] t2 by simp_all
  have "\<forall>out\<in>set outs. \<exists>k. out = ti_output (fst s3) k"
    unfolding outs by auto
  with counts l1 l2 l3 t3 show thesis
    unfolding niv nso P_def Q_def by (rule that)
qed

text \<open>C9. Scan input alignment. For a translation of a scan node that returns, and for
  the \<open>m\<close>-th scan input (\<open>m < num_scan_inputs\<close>) whose shape has a static rank: the
  scan axis normalizes against that rank, the Parameter at the position of the
  corresponding body input in every returned TensorIterator keeps the identity of the body
  input and has the shape of the scan input with extent 1 at the normalized axis, and every
  input of a node of the body that consumed that Parameter consumes, in the results of the
  TensorIterator, a Squeeze of that Parameter whose axis constant holds the scan axis of
  the attribute. A result that is a scan output sits under the Unsqueeze the translation
  adds, hence the path prefix \<open>[0]\<close>. The identities of the body Parameters are distinct,
  and the counts fit the integer types of the code.\<close>

theorem scan_input_alignment:
  assumes run: "scan_to_tensor_iterator shp elt na node_inputs body_inputs body_outputs nsi
      in_axes in_dirs out_axes out_dirs off desc = Inr outs"
    and ranges: "length body_inputs < 2 ^ 63" "length body_outputs < 2 ^ 63"
      "- (2 ^ 63) \<le> nsi" "nsi < 2 ^ 63" "0 \<le> off" "off < 2 ^ 63"
    and ids: "distinct (map param_id body_inputs)"
    and m: "int m < nsi"
    and static: "get_partial_shape shp
      (node_inputs ! (length body_inputs - nat nsi + m + nat off)) = Ranked ds"
  shows "\<exists>axis p.
    na desc (in_axes ! m) (Some (length ds)) = Inr axis \<and> 0 \<le> axis \<and> nat axis < length ds \<and>
    param_id p = param_id (body_inputs ! (length body_inputs - nat nsi + m)) \<and>
    param_partial_shape p = Ranked (ds[nat axis := Static 1]) \<and>
    (\<forall>out\<in>set outs. \<exists>xs results params ins descs k.
       out = TensorIterator xs results params ins descs k \<and>
       params ! (length body_inputs - nat nsi + m) = p \<and>
       (\<forall>j<length body_outputs. \<forall>path q.
          path \<noteq> [] \<longrightarrow> get_source_output (body_outputs ! j) path = Some (Parameter q) \<longrightarrow>
          param_id q = param_id p \<longrightarrow>
          get_source_output (results ! j)
            ((if j < length body_inputs - nat nsi then [] else [0]) @ path) =
            Some (Op Squeeze_v0 [Parameter p, Constant i64 [1] [I64 (in_axes ! m)]])))"
proof -
  define niv where "niv = length body_inputs - nat nsi"
  define nso where "nso = length body_outputs - niv"
  from scan_to_tensor_iterator_stages [OF run ranges] obtain b1 b2 b3 ti3 where
    counts: "0 \<le> nsi" "nat nsi \<le> length body_inputs" "niv \<le> length body_outputs"
    and l1: "for_loop 0 (int niv)
       (align_initial_value shp elt node_inputs off) (body_inputs, body_outputs) = Inr b1"
    and l2: "for_loop 0 nsi (align_scan_input shp na node_inputs niv in_axes off desc) b1 =
       Inr b2"
    and l3: "for_loop 0 (int nso) (align_scan_output niv out_axes) b2 = Inr b3"
    and ti3: "ti_results ti3 = snd b3" "ti_parameters ti3 = fst b3"
    and outs: "\<forall>out\<in>set outs. \<exists>k. out = ti_output ti3 k"
    unfolding niv_def nso_def by blast
  have r1: "int niv < 2 ^ 64" using ranges(1) by (simp add: niv_def)
  from align_initial_values [OF l1 r1]
  have b1: "length (fst b1) = length body_inputs" "length (snd b1) = length body_outputs"
    "map param_id (fst b1) = map param_id body_inputs"
    by simp_all
  have m_len: "niv + m < length body_inputs"
    using m counts by (simp add: niv_def)
  have pid: "param_id (fst b1 ! (niv + m)) = param_id (body_inputs ! (niv + m))"
    using b1(1,3) m_len by (metis nth_map)
  note occ1 = align_initial_values_parameters [OF l1, simplified]
  have r2: "int niv + nsi < 2 ^ 63" using counts ranges(1) by (simp add: niv_def)
  from align_scan_inputs_squeeze [OF l2 r2 ranges(5,6) _ m static [folded niv_def]] ids b1(3)
  obtain axis p where
    axis: "na desc (in_axes ! m) (Some (length ds)) = Inr axis" "0 \<le> axis"
      "nat axis < length ds"
    and p: "fst b2 ! (niv + m) = p" "param_id p = param_id (body_inputs ! (niv + m))"
      "param_partial_shape p = Ranked (ds[nat axis := Static 1])"
    and occ2: "\<forall>j<length body_outputs. \<forall>path q.
       path \<noteq> [] \<longrightarrow> get_source_output (snd b1 ! j) path = Some (Parameter q) \<longrightarrow>
       param_id q = param_id (body_inputs ! (niv + m)) \<longrightarrow>
       get_source_output (snd b2 ! j) path =
         Some (Op Squeeze_v0 [Parameter p, Constant i64 [1] [I64 (in_axes ! m)]])"
    unfolding pid b1(2) by auto
  from align_scan_inputs [OF l2] r2 have b2: "length (snd b2) = length body_outputs"
    by (simp add: b1)
  have r3: "int niv + int nso < 2 ^ 64" using counts ranges(2) by (simp add: nso_def)
  from align_scan_outputs [OF l3 r3] have b3: "fst b3 = fst b2"
    and wrapped: "\<forall>i<length body_outputs. snd b3 ! i =
       (if niv \<le> i \<and> i < niv + nso
        then Op Unsqueeze_v0 [snd b2 ! i, Constant i64 [1] [I64 (out_axes ! (i - niv))]]
        else snd b2 ! i)"
    by (simp_all add: b2)
  have total: "niv + nso = length body_outputs" using counts by (simp add: nso_def)
  have occ3: "get_source_output (snd b3 ! j) ((if j < niv then [] else [0]) @ path) =
      Some (Op Squeeze_v0 [Parameter p, Constant i64 [1] [I64 (in_axes ! m)]])"
    if j: "j < length body_outputs" and path: "path \<noteq> []"
      and q: "get_source_output (body_outputs ! j) path = Some (Parameter q)"
        "param_id q = param_id p"
    for j path q
  proof -
    from occ1 j q(1) obtain q' where
      "get_source_output (snd b1 ! j) path = Some (Parameter q')" "param_id q' = param_id q"
      by blast
    with occ2 j path q(2) p(2) have sq: "get_source_output (snd b2 ! j) path =
        Some (Op Squeeze_v0 [Parameter p, Constant i64 [1] [I64 (in_axes ! m)]])"
      by simp
    show ?thesis
    proof (cases "j < niv")
      case True
      with wrapped j sq show ?thesis by simp
    next
      case False
      with j total have "niv \<le> j \<and> j < niv + nso" by simp
      with wrapped j have "snd b3 ! j =
          Op Unsqueeze_v0 [snd b2 ! j, Constant i64 [1] [I64 (out_axes ! (j - niv))]]"
        by simp
      with False sq show ?thesis by simp
    qed
  qed
  have each: "\<exists>xs results params ins descs k.
       out = TensorIterator xs results params ins descs k \<and>
       params ! (niv + m) = p \<and>
       (\<forall>j<length body_outputs. \<forall>path q.
          path \<noteq> [] \<longrightarrow> get_source_output (body_outputs ! j) path = Some (Parameter q) \<longrightarrow>
          param_id q = param_id p \<longrightarrow>
          get_source_output (results ! j) ((if j < niv then [] else [0]) @ path) =
            Some (Op Squeeze_v0 [Parameter p, Constant i64 [1] [I64 (in_axes ! m)]]))"
    if "out \<in> set outs" for out
  proof -
    from outs that obtain k where "out = ti_output ti3 k" by blast
    then have "out = TensorIterator (ti_inputs ti3) (snd b3) (fst b2)
        (ti_input_descriptions ti3) (ti_output_descriptions ti3) k"
      by (simp add: ti_output_def ti3 b3)
    with p(1) occ3 show ?thesis by blast
  qed
  show ?thesis
    using axis p(2,3) each unfolding niv_def
    by (intro exI [of _ axis] exI [of _ p]) blast
qed

theorem scan_input_alignment_witness:
  "\<exists>outs xs results params ins descs.
     scan_to_tensor_iterator example_shapes (\<lambda>e. f32) example_normalize_axis
       (get_ng_inputs example_scan_node) (get_ng_parameters example_scan_body)
       (get_ov_outputs example_scan_body) 1 [0] [1] [0] [0] 0 ''Scan'' = Inr outs \<and>
     outs ! 0 = TensorIterator xs results params ins descs 0 \<and>
     params ! 1 = Param 11 f32 (Ranked [Static 1, Static 2]) \<and>
     get_source_output (results ! 0) [1] =
       Some (Op Squeeze_v0 [Parameter (params ! 1), Constant i64 [1] [I64 0]]) \<and>
     get_source_output (results ! 1) [0, 0] =
       Some (Op Squeeze_v0 [Parameter (params ! 1), Constant i64 [1] [I64 0]])"
proof -
  define node_inputs where "node_inputs = get_ng_inputs example_scan_node"
  define body_inputs where "body_inputs = get_ng_parameters example_scan_body"
  define body_outputs where "body_outputs = get_ov_outputs example_scan_body"
  note examples = node_inputs_def body_inputs_def body_outputs_def example_scan_node_def
    example_scan_body_def
  have "\<exists>outs. scan_to_tensor_iterator example_shapes (\<lambda>e. f32) example_normalize_axis
       node_inputs body_inputs body_outputs 1 [0] [1] [0] [0] 0 ''Scan'' = Inr outs \<and>
       (\<exists>xs results params ins descs.
          outs ! 0 = TensorIterator xs results params ins descs 0 \<and>
          params ! 1 = Param 11 f32 (Ranked [Static 1, Static 2])) \<and> outs \<noteq> []"
    by (simp add: scan_evaluation examples example_normalize_axis_def)
  then obtain outs xs results params ins descs where
    run: "scan_to_tensor_iterator example_shapes (\<lambda>e. f32) example_normalize_axis
       node_inputs body_inputs body_outputs 1 [0] [1] [0] [0] 0 ''Scan'' = Inr outs"
    and first: "outs ! 0 = TensorIterator xs results params ins descs 0"
    and param: "params ! 1 = Param 11 f32 (Ranked [Static 1, Static 2])"
    and nonempty: "outs \<noteq> []"
    by blast
  from nonempty have member: "outs ! 0 \<in> set outs" by (cases outs) simp_all
  have static: "get_partial_shape example_shapes
      (node_inputs ! (length body_inputs - nat 1 + 0 + nat 0)) = Ranked [Static 5, Static 2]"
    by (simp add: examples)
  from scan_input_alignment [OF run _ _ _ _ _ _ _ _ static]
  obtain axis p where
    p: "param_id p = param_id (body_inputs ! (length body_inputs - nat 1 + 0))"
    and each: "\<forall>out\<in>set outs. \<exists>xs results params ins descs k.
       out = TensorIterator xs results params ins descs k \<and>
       params ! (length body_inputs - nat 1 + 0) = p \<and>
       (\<forall>j<length body_outputs. \<forall>path q.
          path \<noteq> [] \<longrightarrow> get_source_output (body_outputs ! j) path = Some (Parameter q) \<longrightarrow>
          param_id q = param_id p \<longrightarrow>
          get_source_output (results ! j)
            ((if j < length body_inputs - nat 1 then [] else [0]) @ path) =
            Some (Op Squeeze_v0 [Parameter p, Constant i64 [1] [I64 ([0] ! 0)]]))"
    by (auto simp: examples)
  from each member obtain xs' results' params' ins' descs' k where
    same: "outs ! 0 = TensorIterator xs' results' params' ins' descs' k"
    and p': "params' ! (length body_inputs - nat 1 + 0) = p"
    and occ': "\<forall>j<length body_outputs. \<forall>path q.
          path \<noteq> [] \<longrightarrow> get_source_output (body_outputs ! j) path = Some (Parameter q) \<longrightarrow>
          param_id q = param_id p \<longrightarrow>
          get_source_output (results' ! j)
            ((if j < length body_inputs - nat 1 then [] else [0]) @ path) =
            Some (Op Squeeze_v0 [Parameter p, Constant i64 [1] [I64 ([0] ! 0)]])"
    by blast
  from same first have eq: "results' = results" "params' = params" by simp_all
  have p_eq: "params ! 1 = p" using p' by (simp add: eq examples)
  have occ: "get_source_output (results ! j)
         ((if j < length body_inputs - nat 1 then [] else [0]) @ path) =
         Some (Op Squeeze_v0 [Parameter p, Constant i64 [1] [I64 ([0] ! 0)]])"
    if "j < length body_outputs" "path \<noteq> []"
       "get_source_output (body_outputs ! j) path = Some (Parameter q)"
       "param_id q = param_id p"
    for j path q
    using occ' that unfolding eq by blast
  have id: "param_id p = 11" using p by (simp add: examples)
  have "get_source_output (results ! 0) [1] =
       Some (Op Squeeze_v0 [Parameter p, Constant i64 [1] [I64 0]])"
    using occ [of 0 "[1]" "Param 11 f32 (Ranked [Static 2])"] id by (simp add: examples)
  moreover have "get_source_output (results ! 1) [0, 0] =
       Some (Op Squeeze_v0 [Parameter p, Constant i64 [1] [I64 0]])"
    using occ [of 1 "[0]" "Param 11 f32 (Ranked [Static 2])"] id by (simp add: examples)
  ultimately show ?thesis
    using run first param p_eq unfolding node_inputs_def body_inputs_def body_outputs_def
    by blast
qed

end
